theory Spec2Isabelle
  imports Complex_Main "HOL-Library.Sublist" "HOL-Library.Monad_Syntax"
begin

section \<open>JavaScript strings\<close>

text \<open>
  A JavaScript string is a sequence of UTF-16 code units; \<open>length\<close>, \<open>split\<close>,
  \<open>trim\<close> and the regular expressions of the bot (none has the \<open>u\<close> flag) all work on
  code units. A string is modelled as the list of its code units, each a natural number.
  \<open>js\<close> turns an ASCII literal into such a list; characters outside ASCII (the emoji and
  signs of the message templates) are written by their code units.
\<close>

type_synonym jsstring = "nat list"

definition js :: "string \<Rightarrow> jsstring" where
  "js s = map of_char s"

text \<open>
  \<open>String.prototype.split\<close> with a separator that matches exactly one code unit (the
  string \<open>"_"\<close>, the character class \<open>/[,;|]/\<close>): the pieces between the separators, in
  order. The result is never empty: \<open>"".split("_")\<close> is \<open>[""]\<close>.
\<close>

fun split_on :: "(nat \<Rightarrow> bool) \<Rightarrow> jsstring \<Rightarrow> jsstring list" where
  "split_on sep [] = [[]]"
| "split_on sep (c # cs) =
     (let r = split_on sep cs in if sep c then [] # r else (c # hd r) # tl r)"

text \<open>\<open>Array.prototype.join\<close>: the elements with the separator between them.\<close>

fun join :: "jsstring \<Rightarrow> jsstring list \<Rightarrow> jsstring" where
  "join sep [] = []"
| "join sep [x] = x"
| "join sep (x # y # ys) = x @ sep @ join sep (y # ys)"

section \<open>Callback payloads\<close>

text \<open>
  The buttons of the first reply carry \<^verbatim>\<open>`today_${location}`\<close>, \<^verbatim>\<open>`tomorrow_${location}`\<close>
  and so on (src/bot.js, lines 195 to 200): the action, an underscore, the location.
\<close>

definition is_underscore :: "nat \<Rightarrow> bool" where
  "is_underscore c = (c = 95)"

definition callback_data :: "jsstring \<Rightarrow> jsstring \<Rightarrow> jsstring" where
  "callback_data action loc = action @ js ''_'' @ loc"

text \<open>
  src/bot.js, lines 229 and 230:
  \<^verbatim>\<open>const [action, ...locParts] = data.split("_"); const location = locParts.join("_");\<close>
  The array is never empty, so \<open>action\<close> is always a string.
\<close>

definition decode_callback :: "jsstring \<Rightarrow> jsstring \<times> jsstring" where
  "decode_callback data =
     (let parts = split_on is_underscore data;
          action = hd parts;
          locParts = tl parts
      in (action, join (js ''_'') locParts))"

text \<open>
  src/api/bot.js, line 215: \<^verbatim>\<open>const [action, location] = data.split("_");\<close>
  The location is the second piece alone, and \<open>undefined\<close> (here \<open>None\<close>) when the
  payload has no underscore.
\<close>

definition decode_callback_api :: "jsstring \<Rightarrow> jsstring \<times> jsstring option" where
  "decode_callback_api data =
     (let parts = split_on is_underscore data
      in (hd parts, case tl parts of [] \<Rightarrow> None | l # _ \<Rightarrow> Some l))"

section \<open>The command parser\<close>

text \<open>
  The white space of JavaScript (\<open>\s\<close> in a regular expression, and what \<open>trim\<close>
  removes): tab, line feed, vertical tab, form feed, carriage return, space, no-break
  space, U+1680, U+2000 to U+200A, the line and paragraph separators U+2028 and U+2029,
  U+202F, U+205F, U+3000 and the byte order mark U+FEFF.
\<close>

definition is_space :: "nat \<Rightarrow> bool" where
  "is_space c =
     (c = 9 \<or> c = 10 \<or> c = 11 \<or> c = 12 \<or> c = 13 \<or> c = 32 \<or> c = 0xA0 \<or> c = 0x1680 \<or>
      (0x2000 \<le> c \<and> c \<le> 0x200A) \<or> c = 0x2028 \<or> c = 0x2029 \<or> c = 0x202F \<or>
      c = 0x205F \<or> c = 0x3000 \<or> c = 0xFEFF)"

definition trim :: "jsstring \<Rightarrow> jsstring" where
  "trim s = rev (dropWhile is_space (rev (dropWhile is_space s)))"

text \<open>The separators of \<open>/[,;|]/\<close>: comma, semicolon, vertical bar.\<close>

definition is_delim :: "nat \<Rightarrow> bool" where
  "is_delim c = (c = 44 \<or> c = 59 \<or> c = 124)"

text \<open>
  Lower case of the ASCII letters. The bot compares lower-cased text with the ASCII
  patterns \<open>/weather\<close>, \<open>weather\<close> and \<open>/w \<close> only, and no character outside ASCII
  has a lower case that contains a code unit of these patterns, so for these tests
  \<open>toLowerCase\<close> is this map. The same holds for the \<open>i\<close> flag of a regular
  expression without the \<open>u\<close> flag: a code unit from 128 on never matches an ASCII
  letter.
\<close>

definition ascii_lower :: "nat \<Rightarrow> nat" where
  "ascii_lower c = (if 65 \<le> c \<and> c \<le> 90 then c + 32 else c)"

definition toLowerCase :: "jsstring \<Rightarrow> jsstring" where
  "toLowerCase s = map ascii_lower s"

text \<open>
  \<^verbatim>\<open>text.replace(/^\/weather\s*/i, "")\<close>: when the text starts with \<open>/weather\<close> in any
  case, these eight code units and all the white space after them are removed;
  otherwise the text is unchanged.
\<close>

definition strip_weather :: "jsstring \<Rightarrow> jsstring" where
  "strip_weather text =
     (if toLowerCase (take 8 text) = js ''/weather''
      then dropWhile is_space (drop 8 text) else text)"

text \<open>
  src/bot.js, lines 157 to 163 (the same function is in src/api/bot.js and in the third
  variant). \<open>parts[0]\<close> is always a string and \<open>|| ""\<close> maps the empty string to
  itself, so neither changes the result. The result is the pair (location, preferences).
\<close>

definition parseWeatherCommand :: "jsstring \<Rightarrow> jsstring \<times> jsstring" where
  "parseWeatherCommand text =
     (let cleanText = trim (strip_weather text);
          parts = split_on is_delim cleanText;
          location = trim (hd parts);
          preferences = trim (join (js '' '') (tl parts))
      in (location, preferences))"

text \<open>
  The parser as the specification words it, written with operations of its own, none of
  them shared with the translation of the source above; only what a white space is
  (\<open>is_space\<close>) is common to both.

  "Strips a leading \<open>/weather\<close> token (case-insensitive, optional trailing whitespace)
  if present": \<open>token_rest\<close> reads the token letter by letter, each in either case, and
  gives what follows it; \<open>skip_spaces\<close> drops the white space in front.
\<close>

fun token_rest :: "jsstring \<Rightarrow> jsstring \<Rightarrow> jsstring option" where
  "token_rest [] rest = Some rest"
| "token_rest (p # ps) [] = None"
| "token_rest (p # ps) (c # cs) =
     (if c = p \<or> (97 \<le> p \<and> p \<le> 122 \<and> c + 32 = p) then token_rest ps cs else None)"

fun skip_spaces :: "jsstring \<Rightarrow> jsstring" where
  "skip_spaces [] = []"
| "skip_spaces (c # cs) = (if is_space c then skip_spaces cs else c # cs)"

definition strip_token :: "jsstring \<Rightarrow> jsstring" where
  "strip_token s =
     (case token_rest (js ''/weather'') s of None \<Rightarrow> s | Some rest \<Rightarrow> skip_spaces rest)"

text \<open>
  "Splits remaining text on any of the delimiters comma, semicolon, or pipe":
  \<open>segments_from\<close> reads the text from the left, collecting the current segment (kept
  reversed) and closing it at each delimiter.
\<close>

definition is_delimiter :: "nat \<Rightarrow> bool" where
  "is_delimiter c = (c \<in> set (js '',;|''))"

fun segments_from :: "jsstring \<Rightarrow> jsstring \<Rightarrow> jsstring list" where
  "segments_from cur [] = [rev cur]"
| "segments_from cur (c # cs) =
     (if is_delimiter c then rev cur # segments_from [] cs else segments_from (c # cur) cs)"

text \<open>
  "Trimmed": without the white space in front and at the end. \<open>drop_trailing_spaces\<close>
  cuts a text where nothing but white space follows.
\<close>

fun drop_trailing_spaces :: "jsstring \<Rightarrow> jsstring" where
  "drop_trailing_spaces [] = []"
| "drop_trailing_spaces (c # cs) =
     (if is_space c \<and> drop_trailing_spaces cs = [] then [] else c # drop_trailing_spaces cs)"

definition trimmed :: "jsstring \<Rightarrow> jsstring" where
  "trimmed s = drop_trailing_spaces (skip_spaces s)"

text \<open>"Rejoined with single spaces": one space in front of each segment but the first.\<close>

definition join_with_spaces :: "jsstring list \<Rightarrow> jsstring" where
  "join_with_spaces segs =
     (case segs of [] \<Rightarrow> [] | s # others \<Rightarrow> s @ concat (map (\<lambda>x. 32 # x) others))"

text \<open>
  "First segment (trimmed) is location; all remaining segments are rejoined with single
  spaces (trimmed) to form preferences."
\<close>

definition parse_spec :: "jsstring \<Rightarrow> jsstring \<times> jsstring" where
  "parse_spec s =
     (case segments_from [] (strip_token s) of
        [] \<Rightarrow> ([], [])
      | first # others \<Rightarrow> (trimmed first, trimmed (join_with_spaces others)))"

section \<open>The weather report\<close>

text \<open>
  A number of JavaScript that is not \<open>NaN\<close>: a finite double, which is a real, or one
  of the two infinities (\<open>JSON.parse\<close> gives \<open>Infinity\<close> for \<open>1e400\<close>). The two
  zeros of a double are one number here: both are falsy and both print as \<open>0\<close>. No
  JSON text parses to \<open>NaN\<close>, and \<open>z.number()\<close> refuses it.
\<close>

datatype jsnumber = Finite real | PosInfinity | NegInfinity

text \<open>\<open>n <= x\<close> and \<open>x <= n\<close> for a finite bound \<open>n\<close>, and \<open>Number.isInteger\<close>.\<close>

fun at_least :: "real \<Rightarrow> jsnumber \<Rightarrow> bool" where
  "at_least n (Finite x) = (n \<le> x)"
| "at_least n PosInfinity = True"
| "at_least n NegInfinity = False"

fun at_most :: "real \<Rightarrow> jsnumber \<Rightarrow> bool" where
  "at_most n (Finite x) = (x \<le> n)"
| "at_most n PosInfinity = False"
| "at_most n NegInfinity = True"

fun isInteger :: "jsnumber \<Rightarrow> bool" where
  "isInteger (Finite x) = (of_int \<lfloor>x\<rfloor> = x)"
| "isInteger PosInfinity = False"
| "isInteger NegInfinity = False"

text \<open>
  The objects that pass the schema \<open>Output\<close> (src/bot.js, lines 16 to 37). An optional
  field is an \<open>option\<close>. The \<open>condition\<close> of a forecast day is
  \<open>day_condition\<close>, the name \<open>condition\<close> being taken by the current weather.
\<close>

record WeatherInfo =
  location :: jsstring
  current_temp :: "jsnumber option"
  condition :: jsstring
  humidity :: "jsnumber option"
  wind_speed :: "jsnumber option"
  recommendations :: "jsstring list option"

record WeatherForecast =
  date :: jsstring
  high_temp :: jsnumber
  low_temp :: jsnumber
  day_condition :: jsstring

record Output =
  current_weather :: WeatherInfo
  forecast :: "WeatherForecast list option"
  clothing_suggestions :: "jsstring list option"
  activity_recommendations :: "jsstring list option"

text \<open>The invariants of the schema, on a report.\<close>

definition valid_info :: "WeatherInfo \<Rightarrow> bool" where
  "valid_info cw =
     (1 \<le> length (location cw) \<and>
      (case humidity cw of
         None \<Rightarrow> True
       | Some h \<Rightarrow> isInteger h \<and> at_least 0 h \<and> at_most 100 h) \<and>
      (case wind_speed cw of None \<Rightarrow> True | Some w \<Rightarrow> at_least 0 w))"

definition valid_report :: "Output \<Rightarrow> bool" where
  "valid_report wd =
     (valid_info (current_weather wd) \<and>
      (case forecast wd of None \<Rightarrow> True | Some fc \<Rightarrow> 1 \<le> length fc \<and> length fc \<le> 7))"

section \<open>The message formatter\<close>

text \<open>The characters outside ASCII of the templates, as UTF-16 code units.\<close>

definition sun_cloud :: jsstring where \<comment> \<open>U+1F324 U+FE0F\<close>
  "sun_cloud = [0xD83C, 0xDF24, 0xFE0F]"
definition thermometer :: jsstring where \<comment> \<open>U+1F321 U+FE0F\<close>
  "thermometer = [0xD83C, 0xDF21, 0xFE0F]"
definition degree :: jsstring where \<comment> \<open>U+00B0\<close>
  "degree = [0xB0]"
definition droplet :: jsstring where \<comment> \<open>U+1F4A7\<close>
  "droplet = [0xD83D, 0xDCA7]"
definition dash :: jsstring where \<comment> \<open>U+1F4A8\<close>
  "dash = [0xD83D, 0xDCA8]"
definition calendar :: jsstring where \<comment> \<open>U+1F4C5\<close>
  "calendar = [0xD83D, 0xDCC5]"
definition tshirt :: jsstring where \<comment> \<open>U+1F455\<close>
  "tshirt = [0xD83D, 0xDC55]"
definition dart :: jsstring where \<comment> \<open>U+1F3AF\<close>
  "dart = [0xD83C, 0xDFAF]"
definition bulb :: jsstring where \<comment> \<open>U+1F4A1\<close>
  "bulb = [0xD83D, 0xDCA1]"
definition bullet :: jsstring where \<comment> \<open>U+2022\<close>
  "bullet = [0x2022]"

text \<open>
  A template \<^verbatim>\<open>${x}\<close> of a number \<open>x\<close> is the string JavaScript prints for it. That
  conversion is a parameter \<open>num\<close> of the formatters; nothing below depends on it.

  An \<open>if (x)\<close> on an optional number holds when the number is there and is not zero
  (\<open>undefined\<close> and \<open>0\<close> are falsy; the schema lets no \<open>NaN\<close> through). An
  \<open>if (xs && xs.length > 0)\<close> or \<open>if (xs?.length)\<close> on an optional array holds when
  the array is there and is not empty.
\<close>

definition truthy :: "jsnumber option \<Rightarrow> bool" where
  "truthy x = (case x of None \<Rightarrow> False | Some v \<Rightarrow> v \<noteq> Finite 0)"

definition items :: "'a list option \<Rightarrow> 'a list" where
  "items xs = (case xs of None \<Rightarrow> [] | Some l \<Rightarrow> l)"

text \<open>src/bot.js, line 101.\<close>

definition header_line :: "WeatherInfo \<Rightarrow> jsstring" where
  "header_line cw =
     sun_cloud @ js '' **Weather for '' @ location cw @ js ''**\<newline>\<newline>''"

text \<open>src/bot.js, line 104.\<close>

definition conditions_title :: jsstring where
  "conditions_title = thermometer @ js '' **Current Conditions:**\<newline>''"

text \<open>src/bot.js, lines 105 to 107.\<close>

definition temperature_line :: "(jsnumber \<Rightarrow> jsstring) \<Rightarrow> WeatherInfo \<Rightarrow> jsstring" where
  "temperature_line num cw =
     (if truthy (current_temp cw)
      then js ''Temperature: '' @ num (the (current_temp cw)) @ degree @ js ''C\<newline>''
      else [])"

text \<open>src/bot.js, line 108.\<close>

definition condition_line :: "WeatherInfo \<Rightarrow> jsstring" where
  "condition_line cw = js ''Condition: '' @ condition cw @ js ''\<newline>''"

text \<open>src/bot.js, lines 110 to 112.\<close>

definition humidity_line :: "(jsnumber \<Rightarrow> jsstring) \<Rightarrow> WeatherInfo \<Rightarrow> jsstring" where
  "humidity_line num cw =
     (if truthy (humidity cw)
      then droplet @ js '' Humidity: '' @ num (the (humidity cw)) @ js ''%\<newline>''
      else [])"

text \<open>src/bot.js, lines 114 to 116.\<close>

definition wind_line :: "(jsnumber \<Rightarrow> jsstring) \<Rightarrow> WeatherInfo \<Rightarrow> jsstring" where
  "wind_line num cw =
     (if truthy (wind_speed cw)
      then dash @ js '' Wind Speed: '' @ num (the (wind_speed cw)) @ js '' km/h\<newline>''
      else [])"

text \<open>src/bot.js, line 122 (and lines 258 and 282 of the callback handler).\<close>

definition forecast_line :: "(jsnumber \<Rightarrow> jsstring) \<Rightarrow> WeatherForecast \<Rightarrow> jsstring" where
  "forecast_line num day =
     date day @ js '': '' @ num (high_temp day) @ degree @ js ''/'' @ num (low_temp day) @
     degree @ js '' - '' @ day_condition day @ js ''\<newline>''"

text \<open>src/bot.js, lines 119 to 124: \<open>slice(0, 3)\<close> is the first three entries.\<close>

definition forecast_preview :: "(jsnumber \<Rightarrow> jsstring) \<Rightarrow> WeatherForecast list option \<Rightarrow> jsstring" where
  "forecast_preview num fc =
     (if 0 < length (items fc)
      then js ''\<newline>'' @ calendar @ js '' **Forecast (next 3 days):**\<newline>'' @
           concat (map (forecast_line num) (take 3 (items fc)))
      else [])"

text \<open>src/bot.js, lines 130, 138 and 149.\<close>

definition bullet_line :: "jsstring \<Rightarrow> jsstring" where
  "bullet_line item = bullet @ js '' '' @ item @ js ''\<newline>''"

text \<open>src/bot.js, lines 127 to 151.\<close>

definition bullet_section :: "jsstring \<Rightarrow> jsstring list option \<Rightarrow> jsstring" where
  "bullet_section title xs =
     (if 0 < length (items xs) then title @ concat (map bullet_line (items xs)) else [])"

text \<open>
  src/bot.js, lines 93 to 154; the function of src/api/bot.js (lines 91 to 142) builds the
  same string. Each line below is one \<open>message +=\<close> of the source, in its order.
\<close>

definition formatWeatherMessage :: "(jsnumber \<Rightarrow> jsstring) \<Rightarrow> Output \<Rightarrow> jsstring" where
  "formatWeatherMessage num weatherData =
     (let cw = current_weather weatherData in
      header_line cw @
      conditions_title @
      temperature_line num cw @
      condition_line cw @
      humidity_line num cw @
      wind_line num cw @
      forecast_preview num (forecast weatherData) @
      bullet_section (js ''\<newline>'' @ tshirt @ js '' **What to wear:**\<newline>'')
        (clothing_suggestions weatherData) @
      bullet_section (js ''\<newline>'' @ dart @ js '' **Activity suggestions:**\<newline>'')
        (activity_recommendations weatherData) @
      bullet_section (js ''\<newline>'' @ bulb @ js '' **Tips:**\<newline>'') (recommendations cw))"

subsection \<open>The formatter of the third variant\<close>

text \<open>
  src/unnamed/part_000, lines 74 to 113: single asterisks, no title of the current
  conditions, shorter labels, and the bulleted sections built with \<open>map\<close> and
  \<open>join("\n")\<close>.
\<close>

definition header_line_part0 :: "WeatherInfo \<Rightarrow> jsstring" where
  "header_line_part0 cw =
     sun_cloud @ js '' *Weather for '' @ location cw @ js ''*\<newline>\<newline>''"

definition temperature_line_part0 :: "(jsnumber \<Rightarrow> jsstring) \<Rightarrow> WeatherInfo \<Rightarrow> jsstring" where
  "temperature_line_part0 num cw =
     (if truthy (current_temp cw)
      then thermometer @ js '' Temp: '' @ num (the (current_temp cw)) @ degree @ js ''C\<newline>''
      else [])"

definition wind_line_part0 :: "(jsnumber \<Rightarrow> jsstring) \<Rightarrow> WeatherInfo \<Rightarrow> jsstring" where
  "wind_line_part0 num cw =
     (if truthy (wind_speed cw)
      then dash @ js '' Wind: '' @ num (the (wind_speed cw)) @ js '' km/h\<newline>''
      else [])"

definition forecast_preview_part0 ::
  "(jsnumber \<Rightarrow> jsstring) \<Rightarrow> WeatherForecast list option \<Rightarrow> jsstring" where
  "forecast_preview_part0 num fc =
     (if 0 < length (items fc)
      then js ''\<newline>'' @ calendar @ js '' *Forecast (next 3 days):*\<newline>'' @
           concat (map (forecast_line num) (take 3 (items fc)))
      else [])"

definition bullet_section_part0 :: "jsstring \<Rightarrow> jsstring list option \<Rightarrow> jsstring" where
  "bullet_section_part0 title xs =
     (if 0 < length (items xs)
      then title @ join (js ''\<newline>'') (map (\<lambda>i. bullet @ js '' '' @ i) (items xs)) @
           js ''\<newline>''
      else [])"

definition formatWeatherMessage_part0 :: "(jsnumber \<Rightarrow> jsstring) \<Rightarrow> Output \<Rightarrow> jsstring" where
  "formatWeatherMessage_part0 num weatherData =
     (let cw = current_weather weatherData in
      header_line_part0 cw @
      temperature_line_part0 num cw @
      condition_line cw @
      humidity_line num cw @
      wind_line_part0 num cw @
      forecast_preview_part0 num (forecast weatherData) @
      bullet_section_part0 (js ''\<newline>'' @ tshirt @ js '' *What to wear:*\<newline>'')
        (clothing_suggestions weatherData) @
      bullet_section_part0 (js ''\<newline>'' @ dart @ js '' *Activities:*\<newline>'')
        (activity_recommendations weatherData) @
      bullet_section_part0 (js ''\<newline>'' @ bulb @ js '' *Tips:*\<newline>'') (recommendations cw))"

section \<open>The schema\<close>

text \<open>
  A candidate object is a parsed JSON value. The properties of an object are a list of
  keys and values, read with \<open>map_of\<close>; a key that is not there reads as \<open>None\<close>, the
  \<open>undefined\<close> of JavaScript.
\<close>

datatype json =
    JNull
  | JBool bool
  | JNum jsnumber
  | JStr jsstring
  | JArr "json list"
  | JObj "(jsstring \<times> json) list"

text \<open>
  A zod schema takes the value of a property (or \<open>undefined\<close>) and gives the parsed
  value, or fails. \<open>z.string()\<close> and \<open>z.number()\<close> accept a value of their type only
  (\<open>null\<close> and \<open>undefined\<close> are refused; an infinite number is a number, no schema
  of the source having \<open>.finite()\<close>); \<open>.min\<close>, \<open>.max\<close>, \<open>.int\<close> and
  \<open>.nonnegative\<close> add a check; \<open>z.array(s)\<close> accepts an array whose every element
  passes \<open>s\<close>; \<open>.optional()\<close> accepts \<open>undefined\<close> as well. \<open>z.object\<close> reads the
  declared keys and drops the others.
\<close>

type_synonym 'a schema = "json option \<Rightarrow> 'a option"

definition z_string :: "jsstring schema" where
  "z_string v = (case v of Some (JStr s) \<Rightarrow> Some s | _ \<Rightarrow> None)"

definition z_number :: "jsnumber schema" where
  "z_number v = (case v of Some (JNum x) \<Rightarrow> Some x | _ \<Rightarrow> None)"

definition z_check :: "('a \<Rightarrow> bool) \<Rightarrow> 'a schema \<Rightarrow> 'a schema" where
  "z_check ok s v = (case s v of None \<Rightarrow> None | Some a \<Rightarrow> if ok a then Some a else None)"

definition z_int :: "jsnumber schema \<Rightarrow> jsnumber schema" where
  "z_int = z_check isInteger"

definition z_min :: "real \<Rightarrow> jsnumber schema \<Rightarrow> jsnumber schema" where
  "z_min n = z_check (at_least n)"

definition z_max :: "real \<Rightarrow> jsnumber schema \<Rightarrow> jsnumber schema" where
  "z_max n = z_check (at_most n)"

definition z_nonnegative :: "jsnumber schema \<Rightarrow> jsnumber schema" where
  "z_nonnegative = z_check (at_least 0)"

definition z_min_length :: "nat \<Rightarrow> 'a list schema \<Rightarrow> 'a list schema" where
  "z_min_length n = z_check (\<lambda>xs. n \<le> length xs)"

definition z_max_length :: "nat \<Rightarrow> 'a list schema \<Rightarrow> 'a list schema" where
  "z_max_length n = z_check (\<lambda>xs. length xs \<le> n)"

definition z_array :: "'a schema \<Rightarrow> 'a list schema" where
  "z_array s v = (case v of Some (JArr xs) \<Rightarrow> those (map (\<lambda>x. s (Some x)) xs) | _ \<Rightarrow> None)"

definition z_optional :: "'a schema \<Rightarrow> 'a option schema" where
  "z_optional s v = (case v of None \<Rightarrow> Some None | Some j \<Rightarrow> map_option Some (s v))"

text \<open>A schema accepts a value when parsing it does not fail.\<close>

definition accepts :: "'a schema \<Rightarrow> json option \<Rightarrow> bool" where
  "accepts s v = (s v \<noteq> None)"


text \<open>src/bot.js, lines 16 to 23.\<close>

definition WeatherInfo_schema :: "WeatherInfo schema" where
  "WeatherInfo_schema v =
     (case v of
        Some (JObj props) \<Rightarrow>
          do {
            l \<leftarrow> z_min_length 1 z_string (map_of props (js ''location''));
            t \<leftarrow> z_optional z_number (map_of props (js ''current_temp''));
            c \<leftarrow> z_string (map_of props (js ''condition''));
            h \<leftarrow> z_optional (z_max 100 (z_min 0 (z_int z_number)))
                  (map_of props (js ''humidity''));
            w \<leftarrow> z_optional (z_nonnegative z_number) (map_of props (js ''wind_speed''));
            r \<leftarrow> z_optional (z_array z_string) (map_of props (js ''recommendations''));
            Some \<lparr>location = l, current_temp = t, condition = c, humidity = h,
                   wind_speed = w, recommendations = r\<rparr>
          }
      | _ \<Rightarrow> None)"

text \<open>src/bot.js, lines 25 to 30.\<close>

definition WeatherForecast_schema :: "WeatherForecast schema" where
  "WeatherForecast_schema v =
     (case v of
        Some (JObj props) \<Rightarrow>
          do {
            d \<leftarrow> z_string (map_of props (js ''date''));
            hi \<leftarrow> z_number (map_of props (js ''high_temp''));
            lo \<leftarrow> z_number (map_of props (js ''low_temp''));
            c \<leftarrow> z_string (map_of props (js ''condition''));
            Some \<lparr>date = d, high_temp = hi, low_temp = lo, day_condition = c\<rparr>
          }
      | _ \<Rightarrow> None)"

text \<open>src/bot.js, lines 32 to 37.\<close>

definition Output_schema :: "Output schema" where
  "Output_schema v =
     (case v of
        Some (JObj props) \<Rightarrow>
          do {
            cw \<leftarrow> WeatherInfo_schema (map_of props (js ''current_weather''));
            fc \<leftarrow> z_optional (z_max_length 7 (z_min_length 1 (z_array WeatherForecast_schema)))
                   (map_of props (js ''forecast''));
            cs \<leftarrow> z_optional (z_array z_string) (map_of props (js ''clothing_suggestions''));
            ar \<leftarrow> z_optional (z_array z_string)
                   (map_of props (js ''activity_recommendations''));
            Some \<lparr>current_weather = cw, forecast = fc, clothing_suggestions = cs,
                   activity_recommendations = ar\<rparr>
          }
      | _ \<Rightarrow> None)"

definition validate :: "json \<Rightarrow> Output option" where
  "validate candidate = Output_schema (Some candidate)"

subsection \<open>The data model of the specification\<close>

text \<open>
  Section 3 of the specification, in its words. WeatherInfo: location (non-empty text,
  required), current_temp (number, optional), condition (text, required), humidity
  (integer 0 to 100, optional), wind_speed (non-negative number, optional),
  recommendations (ordered list of text, optional). ForecastDay: date (text), high_temp
  (number), low_temp (number), condition (text), all required. WeatherReport:
  current_weather (WeatherInfo, required), forecast (ordered list of ForecastDay, length
  1 to 7, optional), clothing_suggestions and activity_recommendations (ordered lists of
  text, optional). Keys the model does not name are free.

  What a number is, is a parameter \<open>number\<close> of the model. The specification asks for
  real numbers (\<open>is_real_number\<close>); the other reading is any number of JavaScript,
  infinite ones too (\<open>is_number\<close>).
\<close>

definition is_text :: "json option \<Rightarrow> bool" where
  "is_text v = (case v of Some (JStr s) \<Rightarrow> True | _ \<Rightarrow> False)"

definition is_number :: "json option \<Rightarrow> bool" where
  "is_number v = (case v of Some (JNum x) \<Rightarrow> True | _ \<Rightarrow> False)"

definition is_real_number :: "json option \<Rightarrow> bool" where
  "is_real_number v = (case v of Some (JNum (Finite x)) \<Rightarrow> True | _ \<Rightarrow> False)"

definition is_list_of :: "(json option \<Rightarrow> bool) \<Rightarrow> json option \<Rightarrow> bool" where
  "is_list_of P v = (case v of Some (JArr xs) \<Rightarrow> list_all (\<lambda>x. P (Some x)) xs | _ \<Rightarrow> False)"

definition optional :: "(json option \<Rightarrow> bool) \<Rightarrow> json option \<Rightarrow> bool" where
  "optional P v = (v = None \<or> P v)"

definition is_WeatherInfo :: "(json option \<Rightarrow> bool) \<Rightarrow> json option \<Rightarrow> bool" where
  "is_WeatherInfo number v =
     (case v of
        Some (JObj props) \<Rightarrow>
          (case map_of props (js ''location'') of Some (JStr s) \<Rightarrow> s \<noteq> [] | _ \<Rightarrow> False) \<and>
          optional number (map_of props (js ''current_temp'')) \<and>
          is_text (map_of props (js ''condition'')) \<and>
          optional
            (\<lambda>h. case h of
                   Some (JNum (Finite x)) \<Rightarrow> x \<in> \<int> \<and> 0 \<le> x \<and> x \<le> 100
                 | _ \<Rightarrow> False)
            (map_of props (js ''humidity'')) \<and>
          optional (\<lambda>w. number w \<and> (case w of Some (JNum x) \<Rightarrow> at_least 0 x | _ \<Rightarrow> False))
            (map_of props (js ''wind_speed'')) \<and>
          optional (is_list_of is_text) (map_of props (js ''recommendations''))
      | _ \<Rightarrow> False)"

definition is_ForecastDay :: "(json option \<Rightarrow> bool) \<Rightarrow> json option \<Rightarrow> bool" where
  "is_ForecastDay number v =
     (case v of
        Some (JObj props) \<Rightarrow>
          is_text (map_of props (js ''date'')) \<and>
          number (map_of props (js ''high_temp'')) \<and>
          number (map_of props (js ''low_temp'')) \<and>
          is_text (map_of props (js ''condition''))
      | _ \<Rightarrow> False)"

definition is_WeatherReport :: "(json option \<Rightarrow> bool) \<Rightarrow> json \<Rightarrow> bool" where
  "is_WeatherReport number candidate =
     (case candidate of
        JObj props \<Rightarrow>
          is_WeatherInfo number (map_of props (js ''current_weather'')) \<and>
          optional (\<lambda>f. is_list_of (is_ForecastDay number) f \<and>
                        (case f of Some (JArr days) \<Rightarrow> 1 \<le> length days \<and> length days \<le> 7
                         | _ \<Rightarrow> False))
            (map_of props (js ''forecast'')) \<and>
          optional (is_list_of is_text) (map_of props (js ''clothing_suggestions'')) \<and>
          optional (is_list_of is_text) (map_of props (js ''activity_recommendations''))
      | _ \<Rightarrow> False)"

section \<open>The model client\<close>

text \<open>src/bot.js, lines 49 to 74: the template of the prompt, line by line.\<close>

definition weather_prompt :: "jsstring \<Rightarrow> jsstring \<Rightarrow> jsstring" where
  \<open>weather_prompt loc preferences =
     js ''\<newline>'' @
     js ''You are Weather Assistant AI. Given the user'' @ [0x2019] @
     js ''s location and preferences,\<newline>'' @
     js ''provide current weather information and helpful recommendations.\<newline>'' @
     js ''\<newline>'' @
     js ''Return ONLY valid JSON that matches this shape:\<newline>'' @
     js ''{\<newline>'' @
     js ''"current_weather": {\<newline>'' @
     js ''"location": string,\<newline>'' @
     js ''"current_temp"?: number,\<newline>'' @
     js ''"condition": string,\<newline>'' @
     js ''"humidity"?: number,\<newline>'' @
     js ''"wind_speed"?: number,\<newline>'' @
     js ''"recommendations"?: string[]\<newline>'' @
     js ''},\<newline>'' @
     js ''"forecast"?: [\<newline>'' @
     js ''{"date": string, "high_temp": number, "low_temp": number, "condition": string}\<newline>'' @
     js ''],\<newline>'' @
     js ''"clothing_suggestions"?: string[],\<newline>'' @
     js ''"activity_recommendations"?: string[]\<newline>'' @
     js ''}\<newline>'' @
     js ''\<newline>'' @
     js ''Do not include extra keys or prose. Output JSON only\<newline>'' @
     js ''Location: '' @ loc @ js ''\<newline>'' @
     js ''Preferences: '' @ preferences @ js ''\<newline>'' @
     js ''Date: today\<newline>''\<close>

text \<open>
  What the handlers do to the outside, in order: the calls of the Telegram client and the
  call of the text generation service with its prompt. The options of \<open>sendMessage\<close>
  are none, \<open>{parse_mode: "Markdown"}\<close>, or those of the first reply:
  \<open>parse_mode: "Markdown"\<close>, \<open>disable_web_page_preview: true\<close> and the inline
  keyboard. What is written to the console is not recorded.
\<close>

datatype button = Button (button_text: jsstring) (button_data: jsstring)

datatype options = NoOptions | Markdown | MarkdownKeyboard "button list list"

datatype event =
    SendChatAction int jsstring
  | SendMessage int jsstring options
  | AnswerCallbackQuery jsstring
  | GenerateObject jsstring

datatype js_error = TypeError | GenerationFailure | SchemaViolation | TransportError

datatype outcome = Returned | Threw js_error

text \<open>
  The outside of the bot: how a number prints, what the service answers to a prompt
  (\<open>None\<close> when the call fails, else the JSON value of its reply), and whether a call
  of the Telegram client that the handler awaits succeeds.
\<close>

record env =
  print_number :: "jsnumber \<Rightarrow> jsstring"
  generate :: "jsstring \<Rightarrow> json option"
  delivered :: "event \<Rightarrow> bool"

text \<open>
  src/bot.js, lines 47 to 90. \<open>generateObject\<close> throws when the call fails and when the
  reply does not pass the schema; \<open>getWeatherInfo\<close> logs the error and throws it again.
\<close>

definition getWeatherInfo :: "env \<Rightarrow> jsstring \<Rightarrow> jsstring \<Rightarrow> js_error + Output" where
  "getWeatherInfo e loc preferences =
     (case generate e (weather_prompt loc preferences) of
        None \<Rightarrow> Inl GenerationFailure
      | Some reply \<Rightarrow>
          (case validate reply of None \<Rightarrow> Inl SchemaViolation | Some object \<Rightarrow> Inr object))"

section \<open>The dispatcher\<close>

definition cross_mark :: jsstring where \<comment> \<open>U+274C\<close>
  "cross_mark = [0x274C]"
definition sun_cloud_plain :: jsstring where \<comment> \<open>U+1F324\<close>
  "sun_cloud_plain = [0xD83C, 0xDF24]"
definition crystal_ball :: jsstring where \<comment> \<open>U+1F52E\<close>
  "crystal_ball = [0xD83D, 0xDD2E]"
definition coat :: jsstring where \<comment> \<open>U+1F9E5\<close>
  "coat = [0xD83E, 0xDDE5]"
definition bar_chart :: jsstring where \<comment> \<open>U+1F4CA\<close>
  "bar_chart = [0xD83D, 0xDCCA]"

text \<open>src/bot.js, lines 172 to 176.\<close>

definition is_weather_request :: "jsstring \<Rightarrow> bool" where
  "is_weather_request text =
     (prefix (js ''/weather'') (toLowerCase text) \<or>
      sublist (js ''weather'') (toLowerCase text) \<or>
      prefix (js ''/w '') (toLowerCase text))"

text \<open>src/bot.js, line 184.\<close>

definition usage_hint :: jsstring where
  "usage_hint =
     sun_cloud @ js '' Please provide a location!\<newline>\<newline>Examples:\<newline>'' @
     bullet @ js '' /weather New York\<newline>'' @
     bullet @ js '' /weather London, outdoor activities\<newline>'' @
     bullet @ js '' /weather Tokyo, running''"

text \<open>src/bot.js, lines 212, 218 and 289.\<close>

definition fetch_apology :: jsstring where
  "fetch_apology =
     cross_mark @
     js '' Sorry, I couldn't get weather information right now. Please try again.''"

definition handler_apology :: jsstring where
  "handler_apology = cross_mark @ js '' Something went wrong. Please try again.''"

definition callback_apology :: jsstring where
  "callback_apology = cross_mark @ js '' Could not fetch info for that option.''"

text \<open>src/bot.js, lines 194 to 201.\<close>

definition weather_buttons :: "jsstring \<Rightarrow> button list list" where
  "weather_buttons loc =
     [[Button (sun_cloud_plain @ js '' Today'') (callback_data (js ''today'') loc)],
      [Button (calendar @ js '' Tomorrow'') (callback_data (js ''tomorrow'') loc)],
      [Button (crystal_ball @ js '' 3 Days'') (callback_data (js ''3days'') loc)],
      [Button (coat @ js '' Clothing Tips'') (callback_data (js ''clothes'') loc)],
      [Button (dart @ js '' Activities'') (callback_data (js ''activities'') loc)],
      [Button (bar_chart @ js '' Full Forecast'') (callback_data (js ''forecast'') loc)]]"

text \<open>
  A message update: the chat and the text, which is \<open>undefined\<close> for a message that
  is not a text (a photo, a sticker).
\<close>

record message =
  msg_chat_id :: int
  msg_text :: "jsstring option"

text \<open>
  src/bot.js, lines 165 to 220. Calling \<open>toLowerCase\<close> on an undefined text throws a
  TypeError inside the outer \<open>try\<close>, whose handler sends the apology of line 218. The
  typing action, the usage hint and the apologies are sent without \<open>await\<close>; the first
  reply is awaited inside the inner \<open>try\<close>, so a failure to send it is caught there
  too.
\<close>

definition onMessage :: "env \<Rightarrow> message \<Rightarrow> event list \<times> outcome" where
  "onMessage e msg =
     (let chatId = msg_chat_id msg in
      case msg_text msg of
        None \<Rightarrow> ([SendMessage chatId handler_apology NoOptions], Returned)
      | Some text \<Rightarrow>
          if is_weather_request text then
            (let typing = SendChatAction chatId (js ''typing'');
                 (loc, preferences) = parseWeatherCommand text
             in if loc = [] then
                  ([typing, SendMessage chatId usage_hint NoOptions], Returned)
                else
                  (let fetch = GenerateObject (weather_prompt loc preferences);
                       apology = SendMessage chatId fetch_apology NoOptions
                   in case getWeatherInfo e loc preferences of
                        Inl err \<Rightarrow> ([typing, fetch, apology], Returned)
                      | Inr weatherData \<Rightarrow>
                          (let reply = SendMessage chatId
                                 (formatWeatherMessage (print_number e) weatherData)
                                 (MarkdownKeyboard (weather_buttons loc))
                           in if delivered e reply then ([typing, fetch, reply], Returned)
                              else ([typing, fetch, reply, apology], Returned))))
          else ([], Returned))"

text \<open>
  The replies of the callback handler, src/bot.js, lines 235 to 286: the message of
  the action, or nothing when the report lacks what the action shows or the action is
  not one of the six.
\<close>

definition callback_reply ::
  "(jsnumber \<Rightarrow> jsstring) \<Rightarrow> jsstring \<Rightarrow> jsstring \<Rightarrow> Output \<Rightarrow> jsstring option" where
  "callback_reply num action loc weatherData =
     (if action = js ''today'' then
        (case items (forecast weatherData) of
           [] \<Rightarrow> None
         | today # _ \<Rightarrow>
             Some (sun_cloud @ js '' *Today's Forecast for '' @ loc @ js '':*\<newline>High: '' @
                   num (high_temp today) @ degree @ js ''C\<newline>Low: '' @
                   num (low_temp today) @ degree @ js ''C\<newline>Condition: '' @
                   day_condition today))
      else if action = js ''tomorrow'' then
        (case drop 1 (items (forecast weatherData)) of
           [] \<Rightarrow> None
         | tomorrow # _ \<Rightarrow>
             Some (calendar @ js '' *Tomorrow's Forecast for '' @ loc @
                   js '':*\<newline>High: '' @
                   num (high_temp tomorrow) @ degree @ js ''C\<newline>Low: '' @
                   num (low_temp tomorrow) @ degree @ js ''C\<newline>Condition: '' @
                   day_condition tomorrow))
      else if action = js ''3days'' then
        (let next3 = take 3 (items (forecast weatherData))
         in if 0 < length next3
            then Some (crystal_ball @ js '' *3-Day Forecast for '' @ loc @
                       js '':*\<newline>\<newline>'' @ concat (map (forecast_line num) next3))
            else None)
      else if action = js ''clothes'' then
        (if 0 < length (items (clothing_suggestions weatherData))
         then Some (coat @ js '' *Clothing Tips for '' @ loc @ js '':*\<newline>\<newline>'' @
                    concat (map bullet_line (items (clothing_suggestions weatherData))))
         else None)
      else if action = js ''activities'' then
        (if 0 < length (items (activity_recommendations weatherData))
         then Some (dart @ js '' *Activity Suggestions for '' @ loc @
                    js '':*\<newline>\<newline>'' @
                    concat (map bullet_line (items (activity_recommendations weatherData))))
         else None)
      else if action = js ''forecast'' then
        (if 0 < length (items (forecast weatherData))
         then Some (bar_chart @ js '' *Full Forecast for '' @ loc @ js '':*\<newline>\<newline>'' @
                    concat (map (forecast_line num) (items (forecast weatherData))))
         else None)
      else None)"

text \<open>
  A callback update: its id, the chat of the message the button hangs on (\<open>None\<close>
  when the update has no message) and the payload (\<open>None\<close> when it has none).
\<close>

record callback_query =
  cq_id :: jsstring
  cq_chat_id :: "int option"
  cq_data :: "jsstring option"

text \<open>
  src/bot.js, lines 223 to 291. Reading the chat of a missing message, a failing
  \<open>answerCallbackQuery\<close> and splitting a missing payload all throw before the
  \<open>try\<close>, so they leave the handler. The fetch takes the location alone:
  \<open>getWeatherInfo(location)\<close> leaves the preferences at their default, the empty
  string.
\<close>

definition onCallback :: "env \<Rightarrow> callback_query \<Rightarrow> event list \<times> outcome" where
  "onCallback e callbackQuery =
     (case cq_chat_id callbackQuery of
        None \<Rightarrow> ([], Threw TypeError)
      | Some chatId \<Rightarrow>
          (let answer = AnswerCallbackQuery (cq_id callbackQuery)
           in if \<not> delivered e answer then ([answer], Threw TransportError)
              else
                (case cq_data callbackQuery of
                   None \<Rightarrow> ([answer], Threw TypeError)
                 | Some data \<Rightarrow>
                     (let (action, loc) = decode_callback data;
                          fetch = GenerateObject (weather_prompt loc []);
                          apology = SendMessage chatId callback_apology NoOptions
                      in case getWeatherInfo e loc [] of
                           Inl err \<Rightarrow> ([answer, fetch, apology], Returned)
                         | Inr weatherData \<Rightarrow>
                             (case callback_reply (print_number e) action loc weatherData of
                                None \<Rightarrow> ([answer, fetch], Returned)
                              | Some msg \<Rightarrow>
                                  (let reply = SendMessage chatId msg Markdown
                                   in if delivered e reply
                                      then ([answer, fetch, reply], Returned)
                                      else ([answer, fetch, reply, apology], Returned)))))))"

text \<open>The messages among the events, and the prompts sent to the service.\<close>

fun sent_messages :: "event list \<Rightarrow> (int \<times> jsstring) list" where
  "sent_messages [] = []"
| "sent_messages (SendMessage chat body opts # es) = (chat, body) # sent_messages es"
| "sent_messages (_ # es) = sent_messages es"

fun prompts :: "event list \<Rightarrow> jsstring list" where
  "prompts [] = []"
| "prompts (GenerateObject p # es) = p # prompts es"
| "prompts (_ # es) = prompts es"

section \<open>An example reply\<close>

text \<open>
  A reply of the service for Oslo with a forecast of five days, the report the schema
  makes of it, and surroundings in which the service gives this reply, fails, or answers
  with something that is no report.
\<close>

definition json_day :: "jsstring \<Rightarrow> real \<Rightarrow> real \<Rightarrow> jsstring \<Rightarrow> json" where
  "json_day d hi lo c =
     JObj [(js ''date'', JStr d), (js ''high_temp'', JNum (Finite hi)),
           (js ''low_temp'', JNum (Finite lo)),
           (js ''condition'', JStr c)]"

definition example_reply :: json where
  "example_reply =
     JObj [(js ''current_weather'',
            JObj [(js ''location'', JStr (js ''Oslo'')), (js ''condition'', JStr (js ''Snow''))]),
           (js ''forecast'',
            JArr [json_day (js ''Mon'') 1 (-4) (js ''Snow''),
                  json_day (js ''Tue'') 2 (-3) (js ''Sleet''),
                  json_day (js ''Wed'') 3 (-2) (js ''Cloudy''),
                  json_day (js ''Thu'') 4 (-1) (js ''Sunny''),
                  json_day (js ''Fri'') 5 0 (js ''Rain'')])]"

definition forecast_day :: "jsstring \<Rightarrow> real \<Rightarrow> real \<Rightarrow> jsstring \<Rightarrow> WeatherForecast" where
  "forecast_day d hi lo c =
     \<lparr>date = d, high_temp = Finite hi, low_temp = Finite lo, day_condition = c\<rparr>"

definition example_days :: "WeatherForecast list" where
  "example_days =
     [forecast_day (js ''Mon'') 1 (-4) (js ''Snow''),
      forecast_day (js ''Tue'') 2 (-3) (js ''Sleet''),
      forecast_day (js ''Wed'') 3 (-2) (js ''Cloudy''),
      forecast_day (js ''Thu'') 4 (-1) (js ''Sunny''),
      forecast_day (js ''Fri'') 5 0 (js ''Rain'')]"

definition example_report :: Output where
  "example_report =
     \<lparr>current_weather =
        \<lparr>location = js ''Oslo'', current_temp = None, condition = js ''Snow'',
         humidity = None, wind_speed = None, recommendations = None\<rparr>,
      forecast = Some example_days, clothing_suggestions = None,
      activity_recommendations = None\<rparr>"

definition env_replying :: "json option \<Rightarrow> env" where
  "env_replying reply =
     \<lparr>print_number = (\<lambda>x. js ''#''), generate = (\<lambda>prompt. reply),
      delivered = (\<lambda>event. True)\<rparr>"


section \<open>Splitting and joining\<close>

lemma split_on_not_Nil: "split_on sep s \<noteq> []"
  by (induction s) (auto simp: Let_def)

lemma split_on_no_sep:
  "\<forall>c \<in> set a. \<not> sep c \<Longrightarrow> split_on sep a = [a]"
  by (induction a) (auto simp: Let_def)

lemma split_on_append_left:
  "\<forall>c \<in> set a. \<not> sep c \<Longrightarrow>
   split_on sep (a @ s) = (a @ hd (split_on sep s)) # tl (split_on sep s)"
  by (induction a) (auto simp: Let_def split_on_not_Nil)

lemma split_on_sep_Cons:
  "sep c \<Longrightarrow> split_on sep (c # s) = [] # split_on sep s"
  by (simp add: Let_def)

lemma split_on_append_sep:
  "\<forall>c \<in> set a. \<not> sep c \<Longrightarrow> sep d \<Longrightarrow>
   split_on sep (a @ d # s) = a # split_on sep s"
  by (simp add: split_on_append_left split_on_sep_Cons)

lemma join_Cons:
  "ys \<noteq> [] \<Longrightarrow> join sep (x # ys) = x @ sep @ join sep ys"
  by (cases ys) auto

lemma join_split_on:
  "join [d] (split_on (\<lambda>c. c = d) s) = s"
proof (induction s)
  case Nil
  show ?case by simp
next
  case (Cons c s)
  obtain p ps where r: "split_on (\<lambda>c. c = d) s = p # ps"
    using split_on_not_Nil [of "\<lambda>c. c = d" s] by (cases "split_on (\<lambda>c. c = d) s") auto
  with Cons show ?case
    by (cases ps) (auto simp: Let_def)
qed

lemma js_underscore: "js ''_'' = [95]"
  by (simp add: js_def)

lemma decode_callback_encode:
  assumes "\<forall>c \<in> set action. \<not> is_underscore c"
  shows "decode_callback (callback_data action loc) = (action, loc)"
proof -
  have "split_on is_underscore (action @ 95 # loc) = action # split_on is_underscore loc"
    using assms by (intro split_on_append_sep) (auto simp: is_underscore_def)
  moreover have "join [95] (split_on is_underscore loc) = loc"
    using join_split_on [of 95 loc] by (simp add: is_underscore_def [abs_def])
  ultimately show ?thesis
    by (simp add: decode_callback_def callback_data_def js_underscore)
qed

lemma decode_callback_api_encode:
  assumes "\<forall>c \<in> set action. \<not> is_underscore c" and "\<forall>c \<in> set loc. \<not> is_underscore c"
  shows "decode_callback_api (callback_data action loc) = (action, Some loc)"
proof -
  have "split_on is_underscore (action @ 95 # loc) = action # split_on is_underscore loc"
    using assms(1) by (intro split_on_append_sep) (auto simp: is_underscore_def)
  moreover have "split_on is_underscore loc = [loc]"
    using assms(2) by (rule split_on_no_sep)
  ultimately show ?thesis
    by (simp add: decode_callback_api_def callback_data_def js_underscore)
qed

section \<open>Trimming and splitting\<close>

lemma is_delim_not_space: "is_space c \<Longrightarrow> \<not> is_delim c"
  by (auto simp: is_space_def is_delim_def)

lemma trim_append_left:
  assumes "\<forall>c \<in> set a. is_space c"
  shows "trim (a @ x) = trim x"
  using assms by (simp add: trim_def dropWhile_append2)

lemma trim_append_right:
  assumes "\<forall>c \<in> set b. is_space c"
  shows "trim (x @ b) = trim x"
proof (cases "\<forall>c \<in> set x. is_space c")
  case True
  have "\<forall>c \<in> set (x @ b). is_space c"
    using True assms by auto
  then have "dropWhile is_space (x @ b) = []"
    unfolding dropWhile_eq_Nil_conv .
  moreover have "dropWhile is_space x = []"
    using True unfolding dropWhile_eq_Nil_conv .
  ultimately show ?thesis by (simp only: trim_def)
next
  case False
  then obtain c where "c \<in> set x" "\<not> is_space c" by blast
  then have "dropWhile is_space (x @ b) = dropWhile is_space x @ b"
    by (rule dropWhile_append1)
  moreover have "dropWhile is_space (rev b @ rev (dropWhile is_space x)) =
      dropWhile is_space (rev (dropWhile is_space x))"
    using assms by (intro dropWhile_append2) simp
  ultimately show ?thesis
    by (simp add: trim_def)
qed

lemma trim_decompose:
  "\<exists>a b. s = a @ trim s @ b \<and> (\<forall>c \<in> set a. is_space c) \<and> (\<forall>c \<in> set b. is_space c)"
proof -
  let ?m = "dropWhile is_space s"
  let ?a = "takeWhile is_space s"
  let ?b = "rev (takeWhile is_space (rev ?m))"
  have "?m = rev (dropWhile is_space (rev ?m)) @ rev (takeWhile is_space (rev ?m))"
    by (metis rev_append rev_rev_ident takeWhile_dropWhile_id)
  then have "?m = trim s @ ?b"
    by (simp add: trim_def)
  then have "s = ?a @ trim s @ ?b"
    by (metis takeWhile_dropWhile_id)
  moreover have "\<forall>c \<in> set ?a. is_space c"
    by (auto dest: set_takeWhileD)
  moreover have "\<forall>c \<in> set ?b. is_space c"
    by (auto dest: set_takeWhileD)
  ultimately show ?thesis by blast
qed

lemma split_on_append_right:
  assumes "\<forall>c \<in> set b. \<not> sep c"
  shows "split_on sep (m @ b) = butlast (split_on sep m) @ [last (split_on sep m) @ b]"
proof (induction m)
  case Nil
  show ?case using assms by (simp add: split_on_no_sep)
next
  case (Cons c m)
  obtain x xs where r: "split_on sep m = x # xs"
    using split_on_not_Nil [of sep m] by (cases "split_on sep m") auto
  with Cons show ?case
    by (cases xs) (auto simp: Let_def)
qed

lemma join_append_last:
  "l \<noteq> [] \<Longrightarrow> join sep (butlast l @ [last l @ b]) = join sep l @ b"
proof (induction l)
  case Nil
  then show ?case by simp
next
  case (Cons x l)
  then show ?case by (cases l) auto
qed

lemma split_trim_location:
  assumes a: "\<forall>c \<in> set a. is_space c" and b: "\<forall>c \<in> set b. is_space c"
  shows "trim (hd (split_on is_delim (a @ m @ b))) = trim (hd (split_on is_delim m))"
    and "trim (join sp (tl (split_on is_delim (a @ m @ b)))) =
         trim (join sp (tl (split_on is_delim m)))"
proof -
  have na: "\<forall>c \<in> set a. \<not> is_delim c" and nb: "\<forall>c \<in> set b. \<not> is_delim c"
    using a b is_delim_not_space by blast+
  obtain x xs where r: "split_on is_delim m = x # xs"
    using split_on_not_Nil [of is_delim m] by (cases "split_on is_delim m") auto
  have s: "split_on is_delim (a @ m @ b) =
      (a @ hd (butlast (x # xs) @ [last (x # xs) @ b])) # tl (butlast (x # xs) @ [last (x # xs) @ b])"
    using split_on_append_left [OF na, of "m @ b"] split_on_append_right [OF nb, of m] r
    by simp
  show "trim (hd (split_on is_delim (a @ m @ b))) = trim (hd (split_on is_delim m))"
  proof (cases xs)
    case Nil
    with s r show ?thesis
      using trim_append_left [OF a, of "x @ b"] trim_append_right [OF b, of x] by simp
  next
    case (Cons y ys)
    with s r show ?thesis
      using trim_append_left [OF a, of x] by simp
  qed
  show "trim (join sp (tl (split_on is_delim (a @ m @ b)))) =
         trim (join sp (tl (split_on is_delim m)))"
  proof (cases xs)
    case Nil
    with s r show ?thesis by simp
  next
    case (Cons y ys)
    then have "tl (split_on is_delim (a @ m @ b)) = butlast xs @ [last xs @ b]"
      using s by simp
    moreover have "join sp (butlast xs @ [last xs @ b]) = join sp xs @ b"
      using Cons by (intro join_append_last) simp
    ultimately show ?thesis
      using r trim_append_right [OF b, of "join sp xs"] by simp
  qed
qed

lemma parse_without_first_trim:
  "parseWeatherCommand text =
     (trim (hd (split_on is_delim (strip_weather text))),
      trim (join (js '' '') (tl (split_on is_delim (strip_weather text)))))"
proof -
  obtain a b where d: "strip_weather text = a @ trim (strip_weather text) @ b"
    and a: "\<forall>c \<in> set a. is_space c" and b: "\<forall>c \<in> set b. is_space c"
    using trim_decompose [of "strip_weather text"] by blast
  have "trim (hd (split_on is_delim (strip_weather text))) =
        trim (hd (split_on is_delim (trim (strip_weather text))))"
    using split_trim_location(1) [OF a b, of "trim (strip_weather text)"] d by simp
  moreover have "trim (join (js '' '') (tl (split_on is_delim (strip_weather text)))) =
        trim (join (js '' '') (tl (split_on is_delim (trim (strip_weather text)))))"
    using split_trim_location(2) [OF a b, of "js '' ''" "trim (strip_weather text)"] d by simp
  ultimately show ?thesis
    by (simp add: parseWeatherCommand_def Let_def)
qed

section \<open>The parser of the specification\<close>

lemma letter_match:
  assumes "p < 65 \<or> 90 < p"
  shows "(c = p \<or> (97 \<le> p \<and> p \<le> 122 \<and> c + 32 = p)) = (ascii_lower c = p)"
  using assms by (auto simp: ascii_lower_def)

lemma token_rest_eq:
  assumes "\<forall>p \<in> set ps. p < 65 \<or> 90 < p"
  shows "token_rest ps s =
     (if toLowerCase (take (length ps) s) = ps then Some (drop (length ps) s) else None)"
  using assms
proof (induction ps arbitrary: s)
  case Nil
  show ?case by (simp add: toLowerCase_def)
next
  case (Cons p ps)
  show ?case
  proof (cases s)
    case Nil
    then show ?thesis by (simp add: toLowerCase_def)
  next
    case (Cons c cs)
    have m: "(c = p \<or> (97 \<le> p \<and> p \<le> 122 \<and> c + 32 = p)) = (ascii_lower c = p)"
      using Cons.prems by (intro letter_match) simp
    have "token_rest ps cs =
        (if toLowerCase (take (length ps) cs) = ps then Some (drop (length ps) cs) else None)"
      using Cons.prems by (intro Cons.IH) simp
    with m show ?thesis
      by (simp add: Cons toLowerCase_def)
  qed
qed

lemma skip_spaces_dropWhile: "skip_spaces s = dropWhile is_space s"
  by (induction s) auto

lemma strip_token_eq: "strip_token s = strip_weather s"
proof -
  have pat: "\<forall>p \<in> set (js ''/weather''). p < 65 \<or> 90 < p"
    by (simp add: js_def)
  have len: "length (js ''/weather'') = 8"
    by (simp add: js_def)
  have "token_rest (js ''/weather'') s =
      (if toLowerCase (take 8 s) = js ''/weather'' then Some (drop 8 s) else None)"
    using token_rest_eq [OF pat, of s] unfolding len .
  then show ?thesis
    by (simp add: strip_token_def strip_weather_def skip_spaces_dropWhile)
qed

lemma is_delimiter_eq: "is_delimiter = is_delim"
  by (rule ext) (auto simp: is_delimiter_def is_delim_def js_def)

lemma segments_from_eq:
  "segments_from cur s =
     (rev cur @ hd (split_on is_delim s)) # tl (split_on is_delim s)"
  by (induction s arbitrary: cur) (auto simp: Let_def is_delimiter_eq split_on_not_Nil)

lemma segments_eq: "segments_from [] s = split_on is_delim s"
  using split_on_not_Nil [of is_delim s] by (simp add: segments_from_eq)

lemma drop_trailing_spaces_Nil:
  "(drop_trailing_spaces s = []) = (\<forall>c \<in> set s. is_space c)"
  by (induction s) auto

lemma drop_trailing_spaces_eq:
  "drop_trailing_spaces s = rev (dropWhile is_space (rev s))"
proof (induction s)
  case Nil
  show ?case by simp
next
  case (Cons c cs)
  show ?case
  proof (cases "\<forall>x \<in> set cs. is_space x")
    case True
    then have "dropWhile is_space (rev cs @ [c]) = dropWhile is_space [c]"
      by (intro dropWhile_append2) simp
    moreover have "drop_trailing_spaces cs = []"
      using True by (simp add: drop_trailing_spaces_Nil)
    ultimately show ?thesis by simp
  next
    case False
    then obtain x where "x \<in> set (rev cs)" "\<not> is_space x" by auto
    then have "dropWhile is_space (rev cs @ [c]) = dropWhile is_space (rev cs) @ [c]"
      by (rule dropWhile_append1)
    moreover have "drop_trailing_spaces cs \<noteq> []"
      using False by (simp add: drop_trailing_spaces_Nil)
    ultimately show ?thesis
      using Cons.IH by simp
  qed
qed

lemma trimmed_eq: "trimmed s = trim s"
  by (simp add: trimmed_def trim_def drop_trailing_spaces_eq skip_spaces_dropWhile)

lemma join_with_spaces_eq: "join_with_spaces segs = join (js '' '') segs"
proof (induction segs)
  case Nil
  show ?case by (simp add: join_with_spaces_def)
next
  case (Cons s others)
  then show ?case
    by (cases others) (simp_all add: join_with_spaces_def js_def)
qed

lemma parse_refines:
  "parseWeatherCommand s = parse_spec s"
proof -
  obtain first others where r: "split_on is_delim (strip_weather s) = first # others"
    using split_on_not_Nil [of is_delim "strip_weather s"]
    by (cases "split_on is_delim (strip_weather s)") auto
  then show ?thesis
    by (simp add: parse_without_first_trim parse_spec_def strip_token_eq segments_eq
        trimmed_eq join_with_spaces_eq)
qed

lemmas parse_eval =
  parseWeatherCommand_def strip_weather_def toLowerCase_def ascii_lower_def
  trim_def is_space_def is_delim_def js_def Let_def

lemmas parse_spec_eval =
  parse_spec_def strip_token_def trimmed_def join_with_spaces_def is_delimiter_def
  is_space_def js_def

section \<open>What the schema accepts\<close>

lemma accepts_z_string: "accepts z_string = is_text"
  by (rule ext) (auto simp: accepts_def z_string_def is_text_def split: option.splits json.splits)

lemma accepts_z_number: "accepts z_number = is_number"
  by (rule ext) (auto simp: accepts_def z_number_def is_number_def split: option.splits json.splits)

lemma those_Some_iff: "(\<exists>ys. those zs = Some ys) = list_all (\<lambda>z. z \<noteq> None) zs"
  by (induction zs) (auto split: option.splits)

lemma those_length: "those zs = Some ys \<Longrightarrow> length ys = length zs"
  by (induction zs arbitrary: ys) (auto split: option.splits)

lemma accepts_z_array: "accepts (z_array s) = is_list_of (accepts s)"
proof (rule ext)
  fix v
  show "accepts (z_array s) v = is_list_of (accepts s) v"
    using those_Some_iff [of "map (\<lambda>x. s (Some x)) xs" for xs]
    by (auto simp: accepts_def z_array_def is_list_of_def list_all_iff
        split: option.splits json.splits)
qed

lemma z_array_length:
  "z_array s v = Some ys \<Longrightarrow> \<exists>xs. v = Some (JArr xs) \<and> length ys = length xs"
  by (auto simp: z_array_def split: option.splits json.splits dest: those_length)

lemma accepts_z_optional: "accepts (z_optional s) = optional (accepts s)"
  by (rule ext) (auto simp: accepts_def z_optional_def optional_def split: option.splits)

lemma accepts_z_check: "accepts (z_check ok s) v = (\<exists>a. s v = Some a \<and> ok a)"
  by (auto simp: accepts_def z_check_def split: option.splits)

lemma isInteger_Ints: "isInteger (Finite x) = (x \<in> \<int>)"
  by (simp, metis Ints_of_int floor_of_int Ints_cases)

lemma accepts_location:
  "accepts (z_min_length 1 z_string) =
   (\<lambda>v. case v of Some (JStr s) \<Rightarrow> s \<noteq> [] | _ \<Rightarrow> False)"
  by (rule ext)
    (auto simp: accepts_def z_min_length_def z_check_def z_string_def Suc_le_eq
      split: option.splits json.splits)

lemma accepts_humidity:
  "accepts (z_max 100 (z_min 0 (z_int z_number))) =
   (\<lambda>h. case h of
          Some (JNum (Finite x)) \<Rightarrow> x \<in> \<int> \<and> 0 \<le> x \<and> x \<le> 100
        | _ \<Rightarrow> False)"
proof (rule ext)
  fix h
  note defs = accepts_def z_max_def z_min_def z_int_def z_check_def z_number_def
  show "accepts (z_max 100 (z_min 0 (z_int z_number))) h =
    (case h of
       Some (JNum (Finite x)) \<Rightarrow> x \<in> \<int> \<and> 0 \<le> x \<and> x \<le> 100
     | _ \<Rightarrow> False)"
  proof (cases h)
    case None
    then show ?thesis by (simp add: defs)
  next
    case (Some j)
    show ?thesis
    proof (cases j)
      case (JNum n)
      with Some show ?thesis
        by (cases n) (auto simp: defs isInteger_Ints simp del: isInteger.simps)
    qed (use Some in \<open>simp_all add: defs\<close>)
  qed
qed

lemma accepts_wind_speed:
  "accepts (z_nonnegative z_number) =
   (\<lambda>w. is_number w \<and> (case w of Some (JNum x) \<Rightarrow> at_least 0 x | _ \<Rightarrow> False))"
proof (rule ext)
  fix w
  note defs = accepts_def z_nonnegative_def z_check_def z_number_def is_number_def
  show "accepts (z_nonnegative z_number) w =
    (is_number w \<and> (case w of Some (JNum x) \<Rightarrow> at_least 0 x | _ \<Rightarrow> False))"
  proof (cases w)
    case None
    then show ?thesis by (simp add: defs)
  next
    case (Some j)
    then show ?thesis
      by (cases j) (simp_all add: defs)
  qed
qed

lemma bind_not_None: "(Option.bind (s v) f \<noteq> None) = (accepts s v \<and> f (the (s v)) \<noteq> None)"
  by (cases "s v") (auto simp: accepts_def)

lemma accepts_WeatherInfo: "accepts WeatherInfo_schema = is_WeatherInfo is_number"
proof (rule ext)
  fix v
  have obj: "accepts WeatherInfo_schema (Some (JObj props)) =
      is_WeatherInfo is_number (Some (JObj props))"
    for props
    unfolding is_WeatherInfo_def
    by (simp add: accepts_def [of WeatherInfo_schema] WeatherInfo_schema_def bind_not_None
        accepts_location accepts_humidity accepts_wind_speed accepts_z_optional
        accepts_z_number accepts_z_string accepts_z_array del: not_None_eq One_nat_def)
  show "accepts WeatherInfo_schema v = is_WeatherInfo is_number v"
  proof (cases v)
    case None
    then show ?thesis by (simp add: accepts_def WeatherInfo_schema_def is_WeatherInfo_def)
  next
    case (Some j)
    then show ?thesis
      using obj by (cases j) (simp_all add: accepts_def WeatherInfo_schema_def is_WeatherInfo_def)
  qed
qed

lemma accepts_WeatherForecast: "accepts WeatherForecast_schema = is_ForecastDay is_number"
proof (rule ext)
  fix v
  have obj: "accepts WeatherForecast_schema (Some (JObj props)) =
      is_ForecastDay is_number (Some (JObj props))"
    for props
    unfolding is_ForecastDay_def
    by (simp add: accepts_def [of WeatherForecast_schema] WeatherForecast_schema_def
        bind_not_None accepts_z_number accepts_z_string del: not_None_eq One_nat_def)
  show "accepts WeatherForecast_schema v = is_ForecastDay is_number v"
  proof (cases v)
    case None
    then show ?thesis
      by (simp add: accepts_def WeatherForecast_schema_def is_ForecastDay_def)
  next
    case (Some j)
    then show ?thesis
      using obj
      by (cases j) (simp_all add: accepts_def WeatherForecast_schema_def is_ForecastDay_def)
  qed
qed

lemma accepts_forecast:
  "accepts (z_max_length 7 (z_min_length 1 (z_array WeatherForecast_schema))) =
   (\<lambda>f. is_list_of (is_ForecastDay is_number) f \<and>
        (case f of Some (JArr days) \<Rightarrow> 1 \<le> length days \<and> length days \<le> 7 | _ \<Rightarrow> False))"
proof (rule ext)
  fix v
  let ?lhs = "accepts (z_max_length 7 (z_min_length 1 (z_array WeatherForecast_schema))) v"
  let ?rhs = "is_list_of (is_ForecastDay is_number) v \<and>
        (case v of Some (JArr days) \<Rightarrow> 1 \<le> length days \<and> length days \<le> 7 | _ \<Rightarrow> False)"
  have list: "accepts (z_array WeatherForecast_schema) v = is_list_of (is_ForecastDay is_number) v"
    by (simp add: accepts_z_array accepts_WeatherForecast)
  show "?lhs = ?rhs"
  proof (cases "z_array WeatherForecast_schema v")
    case None
    then have "\<not> is_list_of (is_ForecastDay is_number) v"
      using list by (simp add: accepts_def)
    with None show ?thesis
      by (simp add: accepts_def z_max_length_def z_min_length_def z_check_def)
  next
    case (Some ys)
    then have "is_list_of (is_ForecastDay is_number) v"
      using list by (simp add: accepts_def)
    moreover obtain xs where "v = Some (JArr xs)" "length ys = length xs"
      using z_array_length [OF Some] by blast
    ultimately show ?thesis
      using Some by (simp add: accepts_def z_max_length_def z_min_length_def z_check_def)
  qed
qed

lemma validate_accepts:
  "(validate candidate \<noteq> None) = is_WeatherReport is_number candidate"
proof (cases candidate)
  case (JObj props)
  then show ?thesis
    unfolding validate_def Output_schema_def is_WeatherReport_def
    by (simp add: bind_not_None accepts_WeatherInfo accepts_forecast
        accepts_z_optional accepts_z_string accepts_z_array del: not_None_eq One_nat_def)
qed (simp_all add: validate_def Output_schema_def is_WeatherReport_def)

lemma humidity_150_rejected:
  assumes "map_of props (js ''current_weather'') = Some (JObj cw)"
    and "map_of cw (js ''humidity'') = Some (JNum (Finite 150))"
  shows "validate (JObj props) = None"
proof -
  have "\<not> is_WeatherInfo is_number (Some (JObj cw))"
    using assms(2) by (simp add: is_WeatherInfo_def optional_def)
  then have "\<not> is_WeatherReport is_number (JObj props)"
    using assms(1) by (simp add: is_WeatherReport_def)
  then show ?thesis
    using validate_accepts [of "JObj props"] by simp
qed

lemma empty_forecast_rejected:
  assumes "map_of props (js ''forecast'') = Some (JArr [])"
  shows "validate (JObj props) = None"
proof -
  have "\<not> is_WeatherReport is_number (JObj props)"
    using assms by (simp add: is_WeatherReport_def optional_def)
  then show ?thesis
    using validate_accepts [of "JObj props"] by simp
qed

text \<open>The schema accepts what satisfies the data model with real numbers.\<close>

lemma real_number_is_number: "is_real_number v \<Longrightarrow> is_number v"
  by (auto simp: is_real_number_def is_number_def split: option.splits json.splits)

lemma is_WeatherInfo_real:
  assumes "is_WeatherInfo is_real_number v"
  shows "is_WeatherInfo is_number v"
proof (cases v)
  case None
  with assms show ?thesis by (simp add: is_WeatherInfo_def)
next
  case (Some j)
  show ?thesis
  proof (cases j)
    case (JObj props)
    with Some assms show ?thesis
      unfolding is_WeatherInfo_def optional_def
      by (auto dest: real_number_is_number)
  qed (use Some assms in \<open>simp_all add: is_WeatherInfo_def\<close>)
qed

lemma is_ForecastDay_real:
  assumes "is_ForecastDay is_real_number v"
  shows "is_ForecastDay is_number v"
proof (cases v)
  case None
  with assms show ?thesis by (simp add: is_ForecastDay_def)
next
  case (Some j)
  show ?thesis
  proof (cases j)
    case (JObj props)
    with Some assms show ?thesis
      unfolding is_ForecastDay_def
      by (auto dest: real_number_is_number)
  qed (use Some assms in \<open>simp_all add: is_ForecastDay_def\<close>)
qed

lemma is_list_of_mono:
  assumes "\<And>x. P x \<Longrightarrow> Q x" and "is_list_of P v"
  shows "is_list_of Q v"
proof (cases v)
  case None
  with assms(2) show ?thesis by (simp add: is_list_of_def)
next
  case (Some j)
  with assms show ?thesis
    by (cases j) (auto simp: is_list_of_def list_all_iff)
qed

lemma real_report_accepted:
  assumes "is_WeatherReport is_real_number candidate"
  shows "validate candidate \<noteq> None"
proof -
  have "is_WeatherReport is_number candidate"
  proof (cases candidate)
    case (JObj props)
    with assms show ?thesis
      unfolding is_WeatherReport_def optional_def
      by (auto intro: is_WeatherInfo_real is_list_of_mono [OF is_ForecastDay_real])
  qed (use assms in \<open>simp_all add: is_WeatherReport_def\<close>)
  then show ?thesis
    using validate_accepts by blast
qed

lemmas schema_eval =
  validate_def Output_schema_def WeatherInfo_schema_def WeatherForecast_schema_def
  z_string_def z_number_def z_check_def z_int_def z_min_def z_max_def z_nonnegative_def
  z_min_length_def z_max_length_def z_array_def z_optional_def js_def

text \<open>A report that passes the schema satisfies the invariants.\<close>

lemma z_check_Some: "z_check ok s v = Some a \<Longrightarrow> s v = Some a \<and> ok a"
  by (auto simp: z_check_def split: option.splits if_splits)

lemma z_optional_Some:
  "z_optional s v = Some x \<Longrightarrow> x = None \<or> (\<exists>a. x = Some a \<and> s v = Some a)"
  by (auto simp: z_optional_def split: option.splits)

lemma WeatherInfo_schema_valid:
  assumes "WeatherInfo_schema v = Some cw"
  shows "valid_info cw"
proof -
  from assms obtain props where v: "v = Some (JObj props)"
    by (auto simp: WeatherInfo_schema_def split: option.splits json.splits)
  from assms obtain l t c h w r where
    l: "z_min_length 1 z_string (map_of props (js ''location'')) = Some l" and
    h: "z_optional (z_max 100 (z_min 0 (z_int z_number))) (map_of props (js ''humidity'')) = Some h" and
    w: "z_optional (z_nonnegative z_number) (map_of props (js ''wind_speed'')) = Some w" and
    cw: "cw = \<lparr>location = l, current_temp = t, condition = c, humidity = h,
                   wind_speed = w, recommendations = r\<rparr>"
    unfolding v WeatherInfo_schema_def
    by (auto simp: bind_eq_Some_conv simp del: One_nat_def)
  have "1 \<le> length l"
    using z_check_Some [OF l [unfolded z_min_length_def]] by simp
  moreover have "case h of
      None \<Rightarrow> True
    | Some x \<Rightarrow> isInteger x \<and> at_least 0 x \<and> at_most 100 x"
    using z_optional_Some [OF h]
    by (auto simp: z_max_def z_min_def z_int_def dest!: z_check_Some)
  moreover have "case w of None \<Rightarrow> True | Some x \<Rightarrow> at_least 0 x"
    using z_optional_Some [OF w]
    by (auto simp: z_nonnegative_def dest!: z_check_Some)
  ultimately show ?thesis
    by (simp add: valid_info_def cw)
qed

lemma validate_valid_report:
  assumes "validate candidate = Some wd"
  shows "valid_report wd"
proof -
  from assms obtain props where v: "candidate = JObj props"
    by (auto simp: validate_def Output_schema_def split: json.splits)
  from assms obtain cw fc cs ar where
    c: "WeatherInfo_schema (map_of props (js ''current_weather'')) = Some cw" and
    f: "z_optional (z_max_length 7 (z_min_length 1 (z_array WeatherForecast_schema)))
          (map_of props (js ''forecast'')) = Some fc" and
    wd: "wd = \<lparr>current_weather = cw, forecast = fc, clothing_suggestions = cs,
               activity_recommendations = ar\<rparr>"
    unfolding v validate_def Output_schema_def
    by (auto simp: bind_eq_Some_conv simp del: One_nat_def)
  have "case fc of None \<Rightarrow> True | Some days \<Rightarrow> 1 \<le> length days \<and> length days \<le> 7"
    using z_optional_Some [OF f]
    by (auto simp: z_max_length_def z_min_length_def dest!: z_check_Some)
  then show ?thesis
    using WeatherInfo_schema_valid [OF c] by (simp add: valid_report_def wd)
qed

section \<open>The formatter and the callback replies\<close>

lemmas format_eval =
  formatWeatherMessage_def formatWeatherMessage_part0_def header_line_def
  header_line_part0_def conditions_title_def temperature_line_def temperature_line_part0_def
  condition_line_def humidity_line_def wind_line_def wind_line_part0_def
  forecast_preview_def forecast_preview_part0_def bullet_section_def
  bullet_section_part0_def truthy_def items_def Let_def

lemma sublist_mid: "sublist m (a @ m @ b)"
  unfolding sublist_def by blast

lemma validate_example: "validate example_reply = Some example_report"
  by (simp add: example_reply_def example_report_def example_days_def forecast_day_def json_day_def schema_eval)

lemma getWeatherInfo_example:
  "getWeatherInfo (env_replying (Some example_reply)) loc preferences = Inr example_report"
  by (simp add: getWeatherInfo_def env_replying_def validate_example)

lemma getWeatherInfo_no_reply:
  "getWeatherInfo (env_replying None) loc preferences = Inl GenerationFailure"
  by (simp add: getWeatherInfo_def env_replying_def)

lemma getWeatherInfo_bad_reply:
  "getWeatherInfo (env_replying (Some JNull)) loc preferences = Inl SchemaViolation"
  by (simp add: getWeatherInfo_def env_replying_def validate_def Output_schema_def)

lemma length_5:
  "length xs = 5 \<Longrightarrow> xs = [xs ! 0, xs ! 1, xs ! 2, xs ! 3, xs ! 4]"
  by (auto simp: numeral_eq_Suc length_Suc_conv)

lemma forecast_preview_5:
  assumes "length fc = 5"
  shows "forecast_preview num (Some fc) =
     js ''\<newline>'' @ calendar @ js '' **Forecast (next 3 days):**\<newline>'' @
     forecast_line num (fc ! 0) @ forecast_line num (fc ! 1) @ forecast_line num (fc ! 2)"
proof -
  obtain a b c d e where "fc = [a, b, c, d, e]"
    using length_5 [OF assms] by metis
  then show ?thesis
    by (simp add: forecast_preview_def items_def)
qed

lemma action_neq:
  "js ''forecast'' \<noteq> js ''today''" "js ''forecast'' \<noteq> js ''tomorrow''"
  "js ''forecast'' \<noteq> js ''3days''" "js ''forecast'' \<noteq> js ''clothes''"
  "js ''forecast'' \<noteq> js ''activities''"
  by (simp_all add: js_def)

lemma full_forecast_5:
  assumes "forecast wd = Some fc" and "length fc = 5"
  shows "callback_reply num (js ''forecast'') loc wd =
     Some (bar_chart @ js '' *Full Forecast for '' @ loc @ js '':*\<newline>\<newline>'' @
           forecast_line num (fc ! 0) @ forecast_line num (fc ! 1) @
           forecast_line num (fc ! 2) @ forecast_line num (fc ! 3) @
           forecast_line num (fc ! 4))"
proof -
  obtain a b c d e where "fc = [a, b, c, d, e]"
    using length_5 [OF assms(2)] by metis
  then show ?thesis
    using assms(1) by (simp add: callback_reply_def action_neq items_def)
qed

lemma forecast_no_underscore: "\<forall>c \<in> set (js ''forecast''). \<not> is_underscore c"
  by (simp add: js_def is_underscore_def)

lemma onCallback_reply:
  assumes "cq_chat_id cq = Some chat" and "cq_data cq = Some data"
    and "delivered e (AnswerCallbackQuery (cq_id cq))"
    and "decode_callback data = (action, loc)"
    and "getWeatherInfo e loc [] = Inr wd"
    and "callback_reply (print_number e) action loc wd = Some body"
  shows "prefix [AnswerCallbackQuery (cq_id cq), GenerateObject (weather_prompt loc []),
                 SendMessage chat body Markdown] (fst (onCallback e cq))"
  using assms by (simp add: onCallback_def Let_def)

section \<open>The handlers\<close>

lemma onMessage_fetch_fails:
  assumes "msg_text msg = Some text" and "is_weather_request text"
    and "parseWeatherCommand text = (loc, preferences)" and "loc \<noteq> []"
    and "getWeatherInfo e loc preferences = Inl err"
  shows "onMessage e msg =
     ([SendChatAction (msg_chat_id msg) (js ''typing''),
       GenerateObject (weather_prompt loc preferences),
       SendMessage (msg_chat_id msg) fetch_apology NoOptions], Returned)"
  using assms by (simp add: onMessage_def Let_def)

lemma onCallback_fetch_fails:
  assumes "cq_chat_id cq = Some chat" and "cq_data cq = Some data"
    and "delivered e (AnswerCallbackQuery (cq_id cq))"
    and "getWeatherInfo e (snd (decode_callback data)) [] = Inl err"
  shows "onCallback e cq =
     ([AnswerCallbackQuery (cq_id cq),
       GenerateObject (weather_prompt (snd (decode_callback data)) []),
       SendMessage chat callback_apology NoOptions], Returned)"
  using assms by (simp add: onCallback_def Let_def case_prod_beta)

lemma getWeatherInfo_errors:
  "getWeatherInfo e loc preferences = Inl err \<Longrightarrow>
   err = GenerationFailure \<or> err = SchemaViolation"
  by (auto simp: getWeatherInfo_def split: option.splits)

lemma is_weather_request_Paris: "is_weather_request (js ''/weather Paris'')"
  by (simp add: is_weather_request_def toLowerCase_def ascii_lower_def js_def)

lemma parse_Paris: "parseWeatherCommand (js ''/weather Paris'') = (js ''Paris'', [])"
  by (simp add: parse_eval)

lemma onMessage_empty_location:
  assumes "msg_text msg = Some text" and "is_weather_request text"
    and "fst (parseWeatherCommand text) = []"
  shows "onMessage e msg =
     ([SendChatAction (msg_chat_id msg) (js ''typing''),
       SendMessage (msg_chat_id msg) usage_hint NoOptions], Returned)"
  using assms by (simp add: onMessage_def Let_def case_prod_beta)

lemma onCallback_prompts:
  assumes "cq_chat_id cq = Some chat" and "cq_data cq = Some data"
    and "delivered e (AnswerCallbackQuery (cq_id cq))"
  shows "prompts (fst (onCallback e cq)) = [weather_prompt (snd (decode_callback data)) []]"
  using assms
  by (simp add: onCallback_def Let_def case_prod_beta split: sum.splits option.splits)

lemma actions_no_underscore:
  "\<forall>c \<in> set (js ''today''). \<not> is_underscore c"
  "\<forall>c \<in> set (js ''tomorrow''). \<not> is_underscore c"
  "\<forall>c \<in> set (js ''3days''). \<not> is_underscore c"
  "\<forall>c \<in> set (js ''clothes''). \<not> is_underscore c"
  "\<forall>c \<in> set (js ''activities''). \<not> is_underscore c"
  "\<forall>c \<in> set (js ''forecast''). \<not> is_underscore c"
  by (simp_all add: js_def is_underscore_def)

lemma button_decodes:
  assumes "b \<in> set (concat (weather_buttons loc))"
  shows "snd (decode_callback (button_data b)) = loc"
  using assms actions_no_underscore
  by (auto simp: weather_buttons_def decode_callback_encode)

lemma onMessage_fetch_succeeds:
  assumes "msg_text msg = Some text" and "is_weather_request text"
    and "parseWeatherCommand text = (loc, preferences)" and "loc \<noteq> []"
    and "getWeatherInfo e loc preferences = Inr wd"
  shows "prefix
     [SendChatAction (msg_chat_id msg) (js ''typing''),
      GenerateObject (weather_prompt loc preferences),
      SendMessage (msg_chat_id msg) (formatWeatherMessage (print_number e) wd)
        (MarkdownKeyboard (weather_buttons loc))]
     (fst (onMessage e msg))"
  using assms by (simp add: onMessage_def Let_def)



lemma prompt_ends:
  "suffix (js ''Location: '' @ loc @ js ''\<newline>Preferences: '' @ preferences @
           js ''\<newline>Date: today\<newline>'') (weather_prompt loc preferences)"
  unfolding weather_prompt_def suffix_def by (simp add: js_def)

lemma is_weather_request_Oslo: "is_weather_request (js ''/weather Oslo, skiing'')"
  by (simp add: is_weather_request_def toLowerCase_def ascii_lower_def js_def)

lemma parse_Oslo: "parseWeatherCommand (js ''/weather Oslo, skiing'') = (js ''Oslo'', js ''skiing'')"
  by (simp add: parse_eval)






section \<open>Claims\<close>

text \<open>
  C1 (the code at the failing input). A request for the location \<open>New_York\<close> gives the
  button of the action \<open>today\<close> the payload \<open>today_New_York\<close>. The callback handler of
  src/api/bot.js (line 215) decodes it to the action \<open>today\<close> and the location
  \<open>New\<close>: it keeps the piece between the first and the second underscore, and the
  location is truncated. The handler of src/bot.js (lines 229 and 230) decodes the same
  payload to the whole location, and it gives back the action and the whole location for
  each of the six actions of the buttons and every location. The payload
  \<open>today_New York\<close> decodes to \<open>today\<close> and \<open>New York\<close> in both handlers.
\<close>

theorem C1_api_handler_truncates_location:
  "callback_data (js ''today'') (js ''New_York'') = js ''today_New_York'' \<and>
   decode_callback_api (js ''today_New_York'') = (js ''today'', Some (js ''New'')) \<and>
   decode_callback_api (js ''today_New_York'') \<noteq> (js ''today'', Some (js ''New_York'')) \<and>
   decode_callback (js ''today_New_York'') = (js ''today'', js ''New_York'') \<and>
   decode_callback (js ''today_New York'') = (js ''today'', js ''New York'') \<and>
   decode_callback_api (js ''today_New York'') = (js ''today'', Some (js ''New York'')) \<and>
   decode_callback (callback_data (js ''today'') loc) = (js ''today'', loc) \<and>
   decode_callback (callback_data (js ''tomorrow'') loc) = (js ''tomorrow'', loc) \<and>
   decode_callback (callback_data (js ''3days'') loc) = (js ''3days'', loc) \<and>
   decode_callback (callback_data (js ''clothes'') loc) = (js ''clothes'', loc) \<and>
   decode_callback (callback_data (js ''activities'') loc) = (js ''activities'', loc) \<and>
   decode_callback (callback_data (js ''forecast'') loc) = (js ''forecast'', loc)"
proof -
  have "callback_data (js ''today'') (js ''New_York'') = js ''today_New_York''"
    by (simp add: callback_data_def js_def)
  moreover have "decode_callback_api (js ''today_New_York'') = (js ''today'', Some (js ''New''))"
    by (simp add: decode_callback_api_def is_underscore_def js_def Let_def)
  moreover have "decode_callback_api (js ''today_New_York'') \<noteq>
      (js ''today'', Some (js ''New_York''))"
    by (simp add: decode_callback_api_def is_underscore_def js_def Let_def)
  moreover have "decode_callback (js ''today_New_York'') = (js ''today'', js ''New_York'')"
    by (simp add: decode_callback_def is_underscore_def js_def Let_def)
  moreover have "decode_callback (js ''today_New York'') = (js ''today'', js ''New York'')"
    by (simp add: decode_callback_def is_underscore_def js_def Let_def)
  moreover have "decode_callback_api (js ''today_New York'') =
      (js ''today'', Some (js ''New York''))"
    by (simp add: decode_callback_api_def is_underscore_def js_def Let_def)
  ultimately show ?thesis
    using actions_no_underscore by (simp add: decode_callback_encode)
qed

text \<open>
  C4. For every input string, \<open>parseWeatherCommand\<close> computes what the specification
  says, here written as \<open>parse_spec\<close> with operations of its own: it strips one leading
  \<open>/weather\<close> token, each letter in either case and with the white space after it, if
  the text starts with one; splits what remains at comma, semicolon and vertical bar;
  returns the trimmed first segment as the location and the other segments, rejoined
  with single spaces and trimmed, as the preferences. (The source also trims the text
  before it splits it; that changes neither result.) \<open>/weather Paris\<close> gives the
  location \<open>Paris\<close> and no preferences, \<open>/weather Tokyo, outdoor sports\<close> gives the
  location \<open>Tokyo\<close> and the preferences \<open>outdoor sports\<close>. The other examples have
  the token in upper and mixed case, white space that is not the space, all three
  delimiters, several segments, an empty first segment, no token, a token that is not in
  front and two tokens.
\<close>

theorem C4_parseWeatherCommand:
  "parseWeatherCommand s = parse_spec s \<and>
   parseWeatherCommand (js ''/weather Paris'') = (js ''Paris'', []) \<and>
   parseWeatherCommand (js ''/weather Tokyo, outdoor sports'') =
     (js ''Tokyo'', js ''outdoor sports'') \<and>
   parseWeatherCommand (js ''/WEATHER Paris'') = (js ''Paris'', []) \<and>
   parseWeatherCommand (js ''/WeAtHeR   Rome;food|wine, art'') =
     (js ''Rome'', js ''food wine  art'') \<and>
   parseWeatherCommand (js ''/Weather'' @ [9, 0xA0, 32] @ js ''Lima , a '' @ [0x3000]) =
     (js ''Lima'', js ''a'') \<and>
   parseWeatherCommand (js ''weather in Oslo | now'') = (js ''weather in Oslo'', js ''now'') \<and>
   parseWeatherCommand (js ''say /weather Paris'') = (js ''say /weather Paris'', []) \<and>
   parseWeatherCommand (js ''/weather /weather Paris'') = (js ''/weather Paris'', []) \<and>
   parseWeatherCommand (js ''/weather , a; b'') = ([], js ''a  b'') \<and>
   parse_spec (js ''/WeAtHeR   Rome;food|wine, art'') = (js ''Rome'', js ''food wine  art'')"
proof (intro conjI)
  show "parseWeatherCommand s = parse_spec s"
    by (rule parse_refines)
  show "parse_spec (js ''/WeAtHeR   Rome;food|wine, art'') = (js ''Rome'', js ''food wine  art'')"
    by (simp add: parse_spec_eval)
qed (simp_all add: parse_eval)

text \<open>
  C6 (as amended). The schema accepts a candidate object exactly when the object satisfies
  the data model of section 3 with every JavaScript number but \<open>NaN\<close> counted as a
  number, the two infinities too: \<open>current_weather\<close> is there, with a non-empty text
  as location, a text as condition, a number as temperature if it has one, a finite
  integer from 0 to 100 as humidity if it has one, a number that is not negative (which
  may be \<open>Infinity\<close>) as wind speed if it has one and a list of texts as recommendations
  if it has them; the forecast, if there, is a list of 1 to 7 days, each with its date and
  condition as texts and its two temperatures as numbers; the clothing and activity
  suggestions, if there, are lists of texts. So every object that satisfies section 3 as
  it is written, with real numbers, is accepted. An object whose humidity is 150 is
  rejected, and so is one whose forecast is empty.
\<close>

theorem C6_schema_accepts:
  "(validate candidate \<noteq> None) = is_WeatherReport is_number candidate \<and>
   (is_WeatherReport is_real_number candidate \<longrightarrow> validate candidate \<noteq> None) \<and>
   (map_of props (js ''current_weather'') = Some (JObj cw) \<and>
    map_of cw (js ''humidity'') = Some (JNum (Finite 150)) \<longrightarrow> validate (JObj props) = None) \<and>
   (map_of props (js ''forecast'') = Some (JArr []) \<longrightarrow> validate (JObj props) = None)"
  using validate_accepts real_report_accepted humidity_150_rejected empty_forecast_rejected
  by blast

theorem C6_schema_accepts_witness:
  "validate
     (JObj [(js ''current_weather'',
             JObj [(js ''location'', JStr (js ''Oslo'')), (js ''condition'', JStr (js ''Snow'')),
                   (js ''humidity'', JNum (Finite 150))]),
            (js ''forecast'', JArr [])]) = None \<and>
   validate
     (JObj [(js ''current_weather'',
             JObj [(js ''location'', JStr (js ''Oslo'')), (js ''condition'', JStr (js ''Snow'')),
                   (js ''humidity'', JNum (Finite 150))])]) = None \<and>
   validate
     (JObj [(js ''current_weather'',
             JObj [(js ''location'', JStr (js ''Oslo'')), (js ''condition'', JStr (js ''Snow'')),
                   (js ''humidity'', JNum (Finite 50))]),
            (js ''forecast'', JArr [])]) = None \<and>
   validate
     (JObj [(js ''current_weather'',
             JObj [(js ''location'', JStr (js ''Oslo'')), (js ''condition'', JStr (js ''Snow'')),
                   (js ''humidity'', JNum (Finite 50))])]) \<noteq> None \<and>
   is_WeatherReport is_number
     (JObj [(js ''current_weather'',
             JObj [(js ''location'', JStr (js ''Oslo'')), (js ''condition'', JStr (js ''Snow'')),
                   (js ''humidity'', JNum (Finite 50))])])"
proof (intro conjI)
  let ?cw = "[(js ''location'', JStr (js ''Oslo'')), (js ''condition'', JStr (js ''Snow'')),
                   (js ''humidity'', JNum (Finite 150))]"
  let ?both = "[(js ''current_weather'', JObj ?cw), (js ''forecast'', JArr [])]"
  let ?good = "JObj [(js ''current_weather'',
             JObj [(js ''location'', JStr (js ''Oslo'')), (js ''condition'', JStr (js ''Snow'')),
                   (js ''humidity'', JNum (Finite 50))])]"
  show "validate (JObj ?both) = None"
    using C6_schema_accepts [of _ ?both ?cw] by (simp add: js_def)
  show "validate (JObj [(js ''current_weather'', JObj ?cw)]) = None"
    using C6_schema_accepts [of _ "[(js ''current_weather'', JObj ?cw)]" ?cw]
    by (simp add: js_def)
  show "validate
     (JObj [(js ''current_weather'',
             JObj [(js ''location'', JStr (js ''Oslo'')), (js ''condition'', JStr (js ''Snow'')),
                   (js ''humidity'', JNum (Finite 50))]),
            (js ''forecast'', JArr [])]) = None"
    using C6_schema_accepts [of _ "[(js ''current_weather'',
             JObj [(js ''location'', JStr (js ''Oslo'')), (js ''condition'', JStr (js ''Snow'')),
                   (js ''humidity'', JNum (Finite 50))]),
            (js ''forecast'', JArr [])]"]
    by (simp add: js_def)
  have "is_WeatherReport is_real_number ?good"
    by (simp add: is_WeatherReport_def is_WeatherInfo_def optional_def is_real_number_def
        is_text_def js_def)
  then show "validate ?good \<noteq> None"
    using C6_schema_accepts [of ?good] by blast
  then show "is_WeatherReport is_number ?good"
    using C6_schema_accepts [of ?good] by blast
qed

text \<open>
  C6 as stated fails in both directions. The schema accepts an object whose temperature
  and wind speed are \<open>Infinity\<close>, which is what \<open>JSON.parse\<close> makes of \<open>1e400\<close>
  and is no real number, so the object does not satisfy section 3. And the schema rejects
  an object that has everything the claim lists (a current weather with a non-empty
  location and a condition text, no forecast, no humidity, no wind speed) because its
  temperature is the text \<open>hot\<close>.
\<close>

theorem C6_schema_accepts_counterexample:
  "validate
     (JObj [(js ''current_weather'',
             JObj [(js ''location'', JStr (js ''Oslo'')), (js ''current_temp'', JNum PosInfinity),
                   (js ''condition'', JStr (js ''Snow'')),
                   (js ''wind_speed'', JNum PosInfinity)])]) =
     Some
       \<lparr>current_weather =
          \<lparr>location = js ''Oslo'', current_temp = Some PosInfinity, condition = js ''Snow'',
           humidity = None, wind_speed = Some PosInfinity, recommendations = None\<rparr>,
        forecast = None, clothing_suggestions = None, activity_recommendations = None\<rparr> \<and>
   \<not> is_WeatherReport is_real_number
     (JObj [(js ''current_weather'',
             JObj [(js ''location'', JStr (js ''Oslo'')), (js ''current_temp'', JNum PosInfinity),
                   (js ''condition'', JStr (js ''Snow'')),
                   (js ''wind_speed'', JNum PosInfinity)])]) \<and>
   validate
     (JObj [(js ''current_weather'',
             JObj [(js ''location'', JStr (js ''Oslo'')), (js ''condition'', JStr (js ''Snow'')),
                   (js ''current_temp'', JStr (js ''hot''))])]) = None"
  by (simp add: schema_eval is_WeatherReport_def is_WeatherInfo_def optional_def
      is_real_number_def is_text_def)

text \<open>
  C2 (the code at the failing input). The reply for Oslo whose temperature, humidity and
  wind speed are all there and all zero passes the schema and gives a valid report. For
  it \<open>formatWeatherMessage\<close> prints the header, the title of the block and the
  condition line, and no line for the temperature, the humidity or the wind, in both
  variants of the formatter: the tests \<open>if (current_weather.current_temp)\<close> and its
  two siblings take the number zero for a missing field. With 5 in place of 0 the three
  lines are printed.
\<close>

theorem C2_zero_values_lose_their_lines:
  "validate
     (JObj [(js ''current_weather'',
             JObj [(js ''location'', JStr (js ''Oslo'')), (js ''current_temp'', JNum (Finite 0)),
                   (js ''condition'', JStr (js ''Snow'')), (js ''humidity'', JNum (Finite 0)),
                   (js ''wind_speed'', JNum (Finite 0))])]) =
     Some
       \<lparr>current_weather =
          \<lparr>location = js ''Oslo'', current_temp = Some (Finite 0), condition = js ''Snow'',
           humidity = Some (Finite 0), wind_speed = Some (Finite 0), recommendations = None\<rparr>,
        forecast = None, clothing_suggestions = None, activity_recommendations = None\<rparr> \<and>
   valid_report
     \<lparr>current_weather =
        \<lparr>location = js ''Oslo'', current_temp = Some (Finite 0), condition = js ''Snow'',
         humidity = Some (Finite 0), wind_speed = Some (Finite 0), recommendations = None\<rparr>,
      forecast = None, clothing_suggestions = None, activity_recommendations = None\<rparr> \<and>
   formatWeatherMessage num
     \<lparr>current_weather =
        \<lparr>location = js ''Oslo'', current_temp = Some (Finite 0), condition = js ''Snow'',
         humidity = Some (Finite 0), wind_speed = Some (Finite 0), recommendations = None\<rparr>,
      forecast = None, clothing_suggestions = None, activity_recommendations = None\<rparr> =
     sun_cloud @ js '' **Weather for Oslo**\<newline>\<newline>'' @
     thermometer @ js '' **Current Conditions:**\<newline>'' @
     js ''Condition: Snow\<newline>'' \<and>
   formatWeatherMessage_part0 num
     \<lparr>current_weather =
        \<lparr>location = js ''Oslo'', current_temp = Some (Finite 0), condition = js ''Snow'',
         humidity = Some (Finite 0), wind_speed = Some (Finite 0), recommendations = None\<rparr>,
      forecast = None, clothing_suggestions = None, activity_recommendations = None\<rparr> =
     sun_cloud @ js '' *Weather for Oslo*\<newline>\<newline>'' @
     js ''Condition: Snow\<newline>'' \<and>
   formatWeatherMessage num
     \<lparr>current_weather =
        \<lparr>location = js ''Oslo'', current_temp = Some (Finite 5), condition = js ''Snow'',
         humidity = Some (Finite 5), wind_speed = Some (Finite 5), recommendations = None\<rparr>,
      forecast = None, clothing_suggestions = None, activity_recommendations = None\<rparr> =
     sun_cloud @ js '' **Weather for Oslo**\<newline>\<newline>'' @
     thermometer @ js '' **Current Conditions:**\<newline>'' @
     js ''Temperature: '' @ num (Finite 5) @ degree @ js ''C\<newline>'' @
     js ''Condition: Snow\<newline>'' @
     droplet @ js '' Humidity: '' @ num (Finite 5) @ js ''%\<newline>'' @
     dash @ js '' Wind Speed: '' @ num (Finite 5) @ js '' km/h\<newline>''"
  by (simp add: format_eval valid_report_def valid_info_def schema_eval)

text \<open>
  C3 (as amended). For every report, the message starts with the header line that names
  the location and contains the condition line, in both variants of the formatter; in
  src/bot.js (and src/api/bot.js, which has the same formatter) it also contains the fixed
  title line of the block of current conditions. No other line is in every message: for a
  valid report with every optional field absent the message of src/bot.js is the header
  line with its blank line, the title line and the condition line, and the message of the
  third variant is the header line with its blank line and the condition line.
\<close>

theorem C3_guaranteed_lines:
  "prefix (header_line (current_weather wd)) (formatWeatherMessage num wd) \<and>
   sublist conditions_title (formatWeatherMessage num wd) \<and>
   sublist (condition_line (current_weather wd)) (formatWeatherMessage num wd) \<and>
   prefix (header_line_part0 (current_weather wd)) (formatWeatherMessage_part0 num wd) \<and>
   sublist (condition_line (current_weather wd)) (formatWeatherMessage_part0 num wd) \<and>
   valid_report
     \<lparr>current_weather =
        \<lparr>location = c # l, current_temp = None, condition = cond,
         humidity = None, wind_speed = None, recommendations = None\<rparr>,
      forecast = None, clothing_suggestions = None, activity_recommendations = None\<rparr> \<and>
   formatWeatherMessage num
     \<lparr>current_weather =
        \<lparr>location = c # l, current_temp = None, condition = cond,
         humidity = None, wind_speed = None, recommendations = None\<rparr>,
      forecast = None, clothing_suggestions = None, activity_recommendations = None\<rparr> =
     sun_cloud @ js '' **Weather for '' @ (c # l) @ js ''**\<newline>\<newline>'' @
     thermometer @ js '' **Current Conditions:**\<newline>'' @
     js ''Condition: '' @ cond @ js ''\<newline>'' \<and>
   formatWeatherMessage_part0 num
     \<lparr>current_weather =
        \<lparr>location = c # l, current_temp = None, condition = cond,
         humidity = None, wind_speed = None, recommendations = None\<rparr>,
      forecast = None, clothing_suggestions = None, activity_recommendations = None\<rparr> =
     sun_cloud @ js '' *Weather for '' @ (c # l) @ js ''*\<newline>\<newline>'' @
     js ''Condition: '' @ cond @ js ''\<newline>''"
proof (intro conjI)
  let ?cw = "current_weather wd"
  show "prefix (header_line ?cw) (formatWeatherMessage num wd)"
    by (simp add: formatWeatherMessage_def Let_def)
  show "prefix (header_line_part0 ?cw) (formatWeatherMessage_part0 num wd)"
    by (simp add: formatWeatherMessage_part0_def Let_def)
  have "formatWeatherMessage num wd =
      (header_line ?cw @ conditions_title @ temperature_line num ?cw) @ condition_line ?cw @
      (humidity_line num ?cw @ wind_line num ?cw @ forecast_preview num (forecast wd) @
       bullet_section (js ''\<newline>'' @ tshirt @ js '' **What to wear:**\<newline>'')
         (clothing_suggestions wd) @
       bullet_section (js ''\<newline>'' @ dart @ js '' **Activity suggestions:**\<newline>'')
         (activity_recommendations wd) @
       bullet_section (js ''\<newline>'' @ bulb @ js '' **Tips:**\<newline>'') (recommendations ?cw))"
    by (simp add: formatWeatherMessage_def Let_def)
  then show "sublist (condition_line ?cw) (formatWeatherMessage num wd)"
    using sublist_mid by metis
  have "formatWeatherMessage num wd =
      header_line ?cw @ conditions_title @
      (temperature_line num ?cw @ condition_line ?cw @
       humidity_line num ?cw @ wind_line num ?cw @ forecast_preview num (forecast wd) @
       bullet_section (js ''\<newline>'' @ tshirt @ js '' **What to wear:**\<newline>'')
         (clothing_suggestions wd) @
       bullet_section (js ''\<newline>'' @ dart @ js '' **Activity suggestions:**\<newline>'')
         (activity_recommendations wd) @
       bullet_section (js ''\<newline>'' @ bulb @ js '' **Tips:**\<newline>'') (recommendations ?cw))"
    by (simp add: formatWeatherMessage_def Let_def)
  then show "sublist conditions_title (formatWeatherMessage num wd)"
    using sublist_mid by metis
  have "formatWeatherMessage_part0 num wd =
      (header_line_part0 ?cw @ temperature_line_part0 num ?cw) @ condition_line ?cw @
      (humidity_line num ?cw @ wind_line_part0 num ?cw @
       forecast_preview_part0 num (forecast wd) @
       bullet_section_part0 (js ''\<newline>'' @ tshirt @ js '' *What to wear:*\<newline>'')
         (clothing_suggestions wd) @
       bullet_section_part0 (js ''\<newline>'' @ dart @ js '' *Activities:*\<newline>'')
         (activity_recommendations wd) @
       bullet_section_part0 (js ''\<newline>'' @ bulb @ js '' *Tips:*\<newline>'') (recommendations ?cw))"
    by (simp add: formatWeatherMessage_part0_def Let_def)
  then show "sublist (condition_line ?cw) (formatWeatherMessage_part0 num wd)"
    using sublist_mid by metis
qed (simp_all add: format_eval valid_report_def valid_info_def)

text \<open>
  C3 as stated fails in src/bot.js: the header line and the condition line are not the
  only lines of every message. The title line of the block of current conditions is in
  the message of every report, and in the message of the report for Oslo with every
  optional field absent it stands between the two.
\<close>

theorem C3_guaranteed_lines_counterexample:
  "(\<forall>num wd. sublist (thermometer @ js '' **Current Conditions:**\<newline>'')
      (formatWeatherMessage num wd)) \<and>
   formatWeatherMessage (\<lambda>x. [])
     \<lparr>current_weather =
        \<lparr>location = js ''Oslo'', current_temp = None, condition = js ''Snow'',
         humidity = None, wind_speed = None, recommendations = None\<rparr>,
      forecast = None, clothing_suggestions = None, activity_recommendations = None\<rparr> =
     sun_cloud @ js '' **Weather for Oslo**\<newline>\<newline>'' @
     thermometer @ js '' **Current Conditions:**\<newline>'' @
     js ''Condition: Snow\<newline>''"
proof (intro conjI allI)
  fix num wd
  have "formatWeatherMessage num wd =
      header_line (current_weather wd) @
      (thermometer @ js '' **Current Conditions:**\<newline>'') @
      (temperature_line num (current_weather wd) @ condition_line (current_weather wd) @
       humidity_line num (current_weather wd) @ wind_line num (current_weather wd) @
       forecast_preview num (forecast wd) @
       bullet_section (js ''\<newline>'' @ tshirt @ js '' **What to wear:**\<newline>'')
         (clothing_suggestions wd) @
       bullet_section (js ''\<newline>'' @ dart @ js '' **Activity suggestions:**\<newline>'')
         (activity_recommendations wd) @
       bullet_section (js ''\<newline>'' @ bulb @ js '' **Tips:**\<newline>'')
         (recommendations (current_weather wd)))"
    by (simp add: formatWeatherMessage_def conditions_title_def Let_def)
  then show "sublist (thermometer @ js '' **Current Conditions:**\<newline>'')
      (formatWeatherMessage num wd)"
    using sublist_mid by metis
qed (simp add: format_eval js_def)

text \<open>
  C8. For every report whose forecast has five entries, the forecast section of
  \<open>formatWeatherMessage\<close> is its title and the first three entries in their order,
  each rendered as \<open>date: high\<degree>/low\<degree> - condition\<close>, and the reply of the
  \<open>forecast\<close> action is its title and all five entries in their order; the callback
  handler sends that reply when the button of the full forecast is pressed and the fetch
  succeeds.
\<close>

theorem C8_forecast_views:
  assumes "forecast wd = Some fc" and "length fc = 5"
  shows "formatWeatherMessage num wd =
       header_line (current_weather wd) @ conditions_title @
       temperature_line num (current_weather wd) @ condition_line (current_weather wd) @
       humidity_line num (current_weather wd) @ wind_line num (current_weather wd) @
       (js ''\<newline>'' @ calendar @ js '' **Forecast (next 3 days):**\<newline>'' @
        forecast_line num (fc ! 0) @ forecast_line num (fc ! 1) @ forecast_line num (fc ! 2)) @
       bullet_section (js ''\<newline>'' @ tshirt @ js '' **What to wear:**\<newline>'')
         (clothing_suggestions wd) @
       bullet_section (js ''\<newline>'' @ dart @ js '' **Activity suggestions:**\<newline>'')
         (activity_recommendations wd) @
       bullet_section (js ''\<newline>'' @ bulb @ js '' **Tips:**\<newline>'')
         (recommendations (current_weather wd)) \<and>
     forecast_line num day =
       date day @ js '': '' @ num (high_temp day) @ degree @ js ''/'' @
       num (low_temp day) @ degree @ js '' - '' @ day_condition day @ js ''\<newline>'' \<and>
     callback_reply num (js ''forecast'') loc wd =
       Some (bar_chart @ js '' *Full Forecast for '' @ loc @ js '':*\<newline>\<newline>'' @
             forecast_line num (fc ! 0) @ forecast_line num (fc ! 1) @
             forecast_line num (fc ! 2) @ forecast_line num (fc ! 3) @
             forecast_line num (fc ! 4)) \<and>
     (cq_chat_id cq = Some chat \<and> cq_data cq = Some (callback_data (js ''forecast'') loc) \<and>
      delivered e (AnswerCallbackQuery (cq_id cq)) \<and> getWeatherInfo e loc [] = Inr wd \<longrightarrow>
      prefix [AnswerCallbackQuery (cq_id cq), GenerateObject (weather_prompt loc []),
              SendMessage chat
                (bar_chart @ js '' *Full Forecast for '' @ loc @ js '':*\<newline>\<newline>'' @
                 forecast_line (print_number e) (fc ! 0) @ forecast_line (print_number e) (fc ! 1) @
                 forecast_line (print_number e) (fc ! 2) @ forecast_line (print_number e) (fc ! 3) @
                 forecast_line (print_number e) (fc ! 4))
                Markdown]
        (fst (onCallback e cq)))"
proof (intro conjI impI)
  show "formatWeatherMessage num wd =
       header_line (current_weather wd) @ conditions_title @
       temperature_line num (current_weather wd) @ condition_line (current_weather wd) @
       humidity_line num (current_weather wd) @ wind_line num (current_weather wd) @
       (js ''\<newline>'' @ calendar @ js '' **Forecast (next 3 days):**\<newline>'' @
        forecast_line num (fc ! 0) @ forecast_line num (fc ! 1) @ forecast_line num (fc ! 2)) @
       bullet_section (js ''\<newline>'' @ tshirt @ js '' **What to wear:**\<newline>'')
         (clothing_suggestions wd) @
       bullet_section (js ''\<newline>'' @ dart @ js '' **Activity suggestions:**\<newline>'')
         (activity_recommendations wd) @
       bullet_section (js ''\<newline>'' @ bulb @ js '' **Tips:**\<newline>'')
         (recommendations (current_weather wd))"
    using forecast_preview_5 [OF assms(2), of num] assms(1)
    by (simp add: formatWeatherMessage_def Let_def)
  show "forecast_line num day =
       date day @ js '': '' @ num (high_temp day) @ degree @ js ''/'' @
       num (low_temp day) @ degree @ js '' - '' @ day_condition day @ js ''\<newline>''"
    by (simp add: forecast_line_def)
  show "callback_reply num (js ''forecast'') loc wd =
       Some (bar_chart @ js '' *Full Forecast for '' @ loc @ js '':*\<newline>\<newline>'' @
             forecast_line num (fc ! 0) @ forecast_line num (fc ! 1) @
             forecast_line num (fc ! 2) @ forecast_line num (fc ! 3) @
             forecast_line num (fc ! 4))"
    by (rule full_forecast_5 [OF assms])
next
  assume a: "cq_chat_id cq = Some chat \<and> cq_data cq = Some (callback_data (js ''forecast'') loc) \<and>
      delivered e (AnswerCallbackQuery (cq_id cq)) \<and> getWeatherInfo e loc [] = Inr wd"
  have "decode_callback (callback_data (js ''forecast'') loc) = (js ''forecast'', loc)"
    using forecast_no_underscore by (rule decode_callback_encode)
  with a show "prefix [AnswerCallbackQuery (cq_id cq), GenerateObject (weather_prompt loc []),
              SendMessage chat
                (bar_chart @ js '' *Full Forecast for '' @ loc @ js '':*\<newline>\<newline>'' @
                 forecast_line (print_number e) (fc ! 0) @ forecast_line (print_number e) (fc ! 1) @
                 forecast_line (print_number e) (fc ! 2) @ forecast_line (print_number e) (fc ! 3) @
                 forecast_line (print_number e) (fc ! 4))
                Markdown]
        (fst (onCallback e cq))"
    using full_forecast_5 [OF assms, of "print_number e" loc]
    by (intro onCallback_reply) auto
qed

theorem C8_forecast_views_witness:
  "forecast example_report = Some example_days \<and> length example_days = 5 \<and>
   formatWeatherMessage (\<lambda>x. js ''#'') example_report =
     sun_cloud @ js '' **Weather for Oslo**\<newline>\<newline>'' @
     thermometer @ js '' **Current Conditions:**\<newline>'' @
     js ''Condition: Snow\<newline>'' @
     js ''\<newline>'' @ calendar @ js '' **Forecast (next 3 days):**\<newline>'' @
     js ''Mon: #'' @ degree @ js ''/#'' @ degree @ js '' - Snow\<newline>'' @
     js ''Tue: #'' @ degree @ js ''/#'' @ degree @ js '' - Sleet\<newline>'' @
     js ''Wed: #'' @ degree @ js ''/#'' @ degree @ js '' - Cloudy\<newline>'' \<and>
   fst (onCallback (env_replying (Some example_reply))
          \<lparr>cq_id = js ''q1'', cq_chat_id = Some 7, cq_data = Some (js ''forecast_Oslo'')\<rparr>) =
     [AnswerCallbackQuery (js ''q1''),
      GenerateObject (weather_prompt (js ''Oslo'') []),
      SendMessage 7
        (bar_chart @ js '' *Full Forecast for Oslo:*\<newline>\<newline>'' @
         js ''Mon: #'' @ degree @ js ''/#'' @ degree @ js '' - Snow\<newline>'' @
         js ''Tue: #'' @ degree @ js ''/#'' @ degree @ js '' - Sleet\<newline>'' @
         js ''Wed: #'' @ degree @ js ''/#'' @ degree @ js '' - Cloudy\<newline>'' @
         js ''Thu: #'' @ degree @ js ''/#'' @ degree @ js '' - Sunny\<newline>'' @
         js ''Fri: #'' @ degree @ js ''/#'' @ degree @ js '' - Rain\<newline>'')
        Markdown]"
proof -
  let ?e = "env_replying (Some example_reply)"
  let ?cq = "\<lparr>cq_id = js ''q1'', cq_chat_id = Some 7, cq_data = Some (js ''forecast_Oslo'')\<rparr>"
  have f: "forecast example_report = Some example_days"
    by (simp add: example_report_def)
  have l: "length example_days = 5"
    by (simp add: example_days_def forecast_day_def)
  have d: "cq_data ?cq = Some (callback_data (js ''forecast'') (js ''Oslo''))"
    by (simp add: callback_data_def js_def)
  have dec: "decode_callback (js ''forecast_Oslo'') = (js ''forecast'', js ''Oslo'')"
    using decode_callback_encode [OF forecast_no_underscore, of "js ''Oslo''"]
    by (simp add: callback_data_def js_def)
  have n: "length (fst (onCallback ?e ?cq)) = 3"
    using getWeatherInfo_example [of "js ''Oslo''" "[]"]
      full_forecast_5 [OF f l, of "print_number ?e" "js ''Oslo''"]
    by (simp add: onCallback_def Let_def dec env_replying_def)
  have p: "prefix xs ys \<Longrightarrow> length ys = length xs \<Longrightarrow> ys = xs" for xs ys :: "event list"
    by (auto simp: prefix_def)
  note c8 = C8_forecast_views [OF f l, of "\<lambda>x. js ''#''" _ "js ''Oslo''" ?cq 7 ?e]
  have 1: "formatWeatherMessage (\<lambda>x. js ''#'') example_report =
     sun_cloud @ js '' **Weather for Oslo**\<newline>\<newline>'' @
     thermometer @ js '' **Current Conditions:**\<newline>'' @
     js ''Condition: Snow\<newline>'' @
     js ''\<newline>'' @ calendar @ js '' **Forecast (next 3 days):**\<newline>'' @
     js ''Mon: #'' @ degree @ js ''/#'' @ degree @ js '' - Snow\<newline>'' @
     js ''Tue: #'' @ degree @ js ''/#'' @ degree @ js '' - Sleet\<newline>'' @
     js ''Wed: #'' @ degree @ js ''/#'' @ degree @ js '' - Cloudy\<newline>''"
    using c8
    by (simp add: example_report_def example_days_def forecast_day_def forecast_line_def header_line_def
        conditions_title_def temperature_line_def condition_line_def humidity_line_def
        wind_line_def bullet_section_def truthy_def items_def js_def)
  have "prefix [AnswerCallbackQuery (js ''q1''),
      GenerateObject (weather_prompt (js ''Oslo'') []),
      SendMessage 7
        (bar_chart @ js '' *Full Forecast for Oslo:*\<newline>\<newline>'' @
         js ''Mon: #'' @ degree @ js ''/#'' @ degree @ js '' - Snow\<newline>'' @
         js ''Tue: #'' @ degree @ js ''/#'' @ degree @ js '' - Sleet\<newline>'' @
         js ''Wed: #'' @ degree @ js ''/#'' @ degree @ js '' - Cloudy\<newline>'' @
         js ''Thu: #'' @ degree @ js ''/#'' @ degree @ js '' - Sunny\<newline>'' @
         js ''Fri: #'' @ degree @ js ''/#'' @ degree @ js '' - Rain\<newline>'')
        Markdown] (fst (onCallback ?e ?cq))"
    using c8 d getWeatherInfo_example [of "js ''Oslo''" "[]"]
    by (simp add: example_days_def forecast_day_def forecast_line_def env_replying_def js_def)
  from p [OF this] n 1 f l show ?thesis by simp
qed

text \<open>
  C5. When the fetch of the model client fails on a weather message (a recognised text
  with a location), the message handler sends one message to the chat of the message, the
  apology, and returns. When it fails on a button press (the callback was answered and
  has a message and a payload), the callback handler sends one message to the chat, its
  apology, and returns. The error is a failure of the service or a reply that does not
  pass the schema, and the handlers do the same for both.
\<close>

theorem C5_one_apology:
  "(msg_text msg = Some text \<and> is_weather_request text \<and>
    parseWeatherCommand text = (loc, preferences) \<and> loc \<noteq> [] \<and>
    getWeatherInfo e loc preferences = Inl err \<longrightarrow>
      sent_messages (fst (onMessage e msg)) = [(msg_chat_id msg, fetch_apology)] \<and>
      snd (onMessage e msg) = Returned) \<and>
   (cq_chat_id cq = Some chat \<and> cq_data cq = Some data \<and>
    delivered e (AnswerCallbackQuery (cq_id cq)) \<and>
    getWeatherInfo e (snd (decode_callback data)) [] = Inl err \<longrightarrow>
      sent_messages (fst (onCallback e cq)) = [(chat, callback_apology)] \<and>
      snd (onCallback e cq) = Returned) \<and>
   (getWeatherInfo e loc preferences = Inl err \<longrightarrow>
      err = GenerationFailure \<or> err = SchemaViolation)"
proof (intro conjI impI)
  assume a: "msg_text msg = Some text \<and> is_weather_request text \<and>
    parseWeatherCommand text = (loc, preferences) \<and> loc \<noteq> [] \<and>
    getWeatherInfo e loc preferences = Inl err"
  then have m: "onMessage e msg =
     ([SendChatAction (msg_chat_id msg) (js ''typing''),
       GenerateObject (weather_prompt loc preferences),
       SendMessage (msg_chat_id msg) fetch_apology NoOptions], Returned)"
    by (intro onMessage_fetch_fails) auto
  show "sent_messages (fst (onMessage e msg)) = [(msg_chat_id msg, fetch_apology)]"
    by (simp add: m)
  show "snd (onMessage e msg) = Returned"
    by (simp add: m)
next
  assume a: "cq_chat_id cq = Some chat \<and> cq_data cq = Some data \<and>
    delivered e (AnswerCallbackQuery (cq_id cq)) \<and>
    getWeatherInfo e (snd (decode_callback data)) [] = Inl err"
  then have c: "onCallback e cq =
     ([AnswerCallbackQuery (cq_id cq),
       GenerateObject (weather_prompt (snd (decode_callback data)) []),
       SendMessage chat callback_apology NoOptions], Returned)"
    by (intro onCallback_fetch_fails) auto
  show "sent_messages (fst (onCallback e cq)) = [(chat, callback_apology)]"
    by (simp add: c)
  show "snd (onCallback e cq) = Returned"
    by (simp add: c)
next
  assume "getWeatherInfo e loc preferences = Inl err"
  then show "err = GenerationFailure \<or> err = SchemaViolation"
    by (rule getWeatherInfo_errors)
qed

theorem C5_one_apology_witness:
  "sent_messages (fst (onMessage (env_replying None)
      \<lparr>msg_chat_id = 7, msg_text = Some (js ''/weather Paris'')\<rparr>)) = [(7, fetch_apology)] \<and>
   snd (onMessage (env_replying None)
      \<lparr>msg_chat_id = 7, msg_text = Some (js ''/weather Paris'')\<rparr>) = Returned \<and>
   sent_messages (fst (onMessage (env_replying (Some JNull))
      \<lparr>msg_chat_id = 7, msg_text = Some (js ''/weather Paris'')\<rparr>)) = [(7, fetch_apology)] \<and>
   snd (onMessage (env_replying (Some JNull))
      \<lparr>msg_chat_id = 7, msg_text = Some (js ''/weather Paris'')\<rparr>) = Returned \<and>
   sent_messages (fst (onCallback (env_replying None)
      \<lparr>cq_id = js ''q1'', cq_chat_id = Some 7, cq_data = Some (js ''today_Paris'')\<rparr>)) =
     [(7, callback_apology)] \<and>
   snd (onCallback (env_replying None)
      \<lparr>cq_id = js ''q1'', cq_chat_id = Some 7, cq_data = Some (js ''today_Paris'')\<rparr>) =
     Returned \<and>
   sent_messages (fst (onCallback (env_replying (Some JNull))
      \<lparr>cq_id = js ''q1'', cq_chat_id = Some 7, cq_data = Some (js ''today_Paris'')\<rparr>)) =
     [(7, callback_apology)] \<and>
   snd (onCallback (env_replying (Some JNull))
      \<lparr>cq_id = js ''q1'', cq_chat_id = Some 7, cq_data = Some (js ''today_Paris'')\<rparr>) =
     Returned"
proof -
  let ?msg = "\<lparr>msg_chat_id = 7, msg_text = Some (js ''/weather Paris'')\<rparr>"
  let ?cq = "\<lparr>cq_id = js ''q1'', cq_chat_id = Some 7, cq_data = Some (js ''today_Paris'')\<rparr>"
  have d: "delivered (env_replying r) ev" for r ev
    by (simp add: env_replying_def)
  note m1 = C5_one_apology [of ?msg "js ''/weather Paris''" "js ''Paris''" "[]"
      "env_replying None" GenerationFailure ?cq 7 "js ''today_Paris''"]
  note m2 = C5_one_apology [of ?msg "js ''/weather Paris''" "js ''Paris''" "[]"
      "env_replying (Some JNull)" SchemaViolation ?cq 7 "js ''today_Paris''"]
  show ?thesis
    using m1 m2 is_weather_request_Paris parse_Paris d
      getWeatherInfo_no_reply getWeatherInfo_bad_reply
    by (simp add: js_def)
qed

text \<open>
  C7. For every text that the dispatcher takes for a weather request and whose parsed
  location is empty, the message handler sends the typing action and the usage hint and
  returns: no prompt goes to the service. The text \<open>/weather\<close> followed by three
  spaces is such a text; it parses to an empty location and empty preferences.
\<close>

theorem C7_empty_location:
  "(msg_text msg = Some text \<and> is_weather_request text \<and>
    fst (parseWeatherCommand text) = [] \<longrightarrow>
      onMessage e msg =
        ([SendChatAction (msg_chat_id msg) (js ''typing''),
          SendMessage (msg_chat_id msg) usage_hint NoOptions], Returned) \<and>
      prompts (fst (onMessage e msg)) = []) \<and>
   is_weather_request (js ''/weather   '') \<and>
   parseWeatherCommand (js ''/weather   '') = ([], [])"
proof (intro conjI impI)
  assume a: "msg_text msg = Some text \<and> is_weather_request text \<and>
    fst (parseWeatherCommand text) = []"
  then show m: "onMessage e msg =
        ([SendChatAction (msg_chat_id msg) (js ''typing''),
          SendMessage (msg_chat_id msg) usage_hint NoOptions], Returned)"
    by (intro onMessage_empty_location) auto
  show "prompts (fst (onMessage e msg)) = []"
    by (simp add: m)
next
  show "is_weather_request (js ''/weather   '')"
    by (simp add: is_weather_request_def toLowerCase_def ascii_lower_def js_def)
  show "parseWeatherCommand (js ''/weather   '') = ([], [])"
    by (simp add: parse_eval)
qed

theorem C7_empty_location_witness:
  "onMessage (env_replying (Some example_reply))
     \<lparr>msg_chat_id = 7, msg_text = Some (js ''/weather   '')\<rparr> =
     ([SendChatAction 7 (js ''typing''), SendMessage 7 usage_hint NoOptions], Returned) \<and>
   prompts (fst (onMessage (env_replying (Some example_reply))
     \<lparr>msg_chat_id = 7, msg_text = Some (js ''/weather   '')\<rparr>)) = []"
  using C7_empty_location [of "\<lparr>msg_chat_id = 7, msg_text = Some (js ''/weather   '')\<rparr>"
      "js ''/weather   ''" "env_replying (Some example_reply)"]
  by simp

text \<open>
  C9. For every button press that reaches the fetch (the update has a message and a
  payload and the callback was answered), the callback handler sends the service exactly
  one prompt, that of the location decoded from the payload with empty preferences. In
  particular, after a weather request with any preferences whose fetch succeeded, the
  first reply carries the buttons of the location alone, and pressing any of them gives
  the prompt of that location with empty preferences, whose last lines are
  \<open>Location:\<close> with the location, \<open>Preferences:\<close> with nothing and the date.
\<close>

theorem C9_callback_preferences:
  "(cq_chat_id cq = Some chat \<and> cq_data cq = Some data \<and>
    delivered e (AnswerCallbackQuery (cq_id cq)) \<longrightarrow>
      prompts (fst (onCallback e cq)) = [weather_prompt (snd (decode_callback data)) []]) \<and>
   (msg_text msg = Some text \<and> is_weather_request text \<and>
    parseWeatherCommand text = (loc, preferences) \<and> loc \<noteq> [] \<and>
    getWeatherInfo e loc preferences = Inr wd \<and>
    b \<in> set (concat (weather_buttons loc)) \<and>
    cq_chat_id cq = Some chat \<and> cq_data cq = Some (button_data b) \<and>
    delivered e (AnswerCallbackQuery (cq_id cq)) \<longrightarrow>
      prefix
        [SendChatAction (msg_chat_id msg) (js ''typing''),
         GenerateObject (weather_prompt loc preferences),
         SendMessage (msg_chat_id msg) (formatWeatherMessage (print_number e) wd)
           (MarkdownKeyboard (weather_buttons loc))]
        (fst (onMessage e msg)) \<and>
      prompts (fst (onCallback e cq)) = [weather_prompt loc []]) \<and>
   suffix (js ''Location: '' @ loc @ js ''\<newline>Preferences: \<newline>Date: today\<newline>'')
     (weather_prompt loc [])"
proof (intro conjI impI)
  assume "cq_chat_id cq = Some chat \<and> cq_data cq = Some data \<and>
    delivered e (AnswerCallbackQuery (cq_id cq))"
  then show "prompts (fst (onCallback e cq)) = [weather_prompt (snd (decode_callback data)) []]"
    by (intro onCallback_prompts) auto
next
  assume a: "msg_text msg = Some text \<and> is_weather_request text \<and>
    parseWeatherCommand text = (loc, preferences) \<and> loc \<noteq> [] \<and>
    getWeatherInfo e loc preferences = Inr wd \<and>
    b \<in> set (concat (weather_buttons loc)) \<and>
    cq_chat_id cq = Some chat \<and> cq_data cq = Some (button_data b) \<and>
    delivered e (AnswerCallbackQuery (cq_id cq))"
  then show "prefix
        [SendChatAction (msg_chat_id msg) (js ''typing''),
         GenerateObject (weather_prompt loc preferences),
         SendMessage (msg_chat_id msg) (formatWeatherMessage (print_number e) wd)
           (MarkdownKeyboard (weather_buttons loc))]
        (fst (onMessage e msg))"
    by (intro onMessage_fetch_succeeds) auto
  have "prompts (fst (onCallback e cq)) =
      [weather_prompt (snd (decode_callback (button_data b))) []]"
    using a by (intro onCallback_prompts) auto
  moreover have "snd (decode_callback (button_data b)) = loc"
    using a by (intro button_decodes) auto
  ultimately show "prompts (fst (onCallback e cq)) = [weather_prompt loc []]"
    by simp
next
  show "suffix (js ''Location: '' @ loc @ js ''\<newline>Preferences: \<newline>Date: today\<newline>'')
     (weather_prompt loc [])"
    using prompt_ends [of loc "[]"] by (simp add: js_def)
qed

theorem C9_callback_preferences_witness:
  "prefix
     [SendChatAction 7 (js ''typing''),
      GenerateObject (weather_prompt (js ''Oslo'') (js ''skiing'')),
      SendMessage 7 (formatWeatherMessage (\<lambda>x. js ''#'') example_report)
        (MarkdownKeyboard (weather_buttons (js ''Oslo'')))]
     (fst (onMessage (env_replying (Some example_reply))
        \<lparr>msg_chat_id = 7, msg_text = Some (js ''/weather Oslo, skiing'')\<rparr>)) \<and>
   prompts (fst (onCallback (env_replying (Some example_reply))
     \<lparr>cq_id = js ''q1'', cq_chat_id = Some 7, cq_data = Some (js ''today_Oslo'')\<rparr>)) =
     [weather_prompt (js ''Oslo'') []]"
proof -
  let ?e = "env_replying (Some example_reply)"
  let ?b = "Button (sun_cloud_plain @ js '' Today'') (js ''today_Oslo'')"
  have b: "?b \<in> set (concat (weather_buttons (js ''Oslo'')))"
    by (simp add: weather_buttons_def callback_data_def js_def)
  have d: "delivered ?e ev" for ev
    by (simp add: env_replying_def)
  have n: "print_number ?e = (\<lambda>x. js ''#'')"
    by (simp add: env_replying_def)
  have ne: "js ''Oslo'' \<noteq> []"
    by (simp add: js_def)
  let ?cq = "\<lparr>cq_id = js ''q1'', cq_chat_id = Some 7, cq_data = Some (js ''today_Oslo'')\<rparr>"
  let ?msg = "\<lparr>msg_chat_id = 7, msg_text = Some (js ''/weather Oslo, skiing'')\<rparr>"
  have prem: "msg_text ?msg = Some (js ''/weather Oslo, skiing'') \<and>
      is_weather_request (js ''/weather Oslo, skiing'') \<and>
      parseWeatherCommand (js ''/weather Oslo, skiing'') = (js ''Oslo'', js ''skiing'') \<and>
      js ''Oslo'' \<noteq> [] \<and>
      getWeatherInfo ?e (js ''Oslo'') (js ''skiing'') = Inr example_report \<and>
      ?b \<in> set (concat (weather_buttons (js ''Oslo''))) \<and>
      cq_chat_id ?cq = Some 7 \<and> cq_data ?cq = Some (button_data ?b) \<and>
      delivered ?e (AnswerCallbackQuery (cq_id ?cq))"
    using b d ne is_weather_request_Oslo parse_Oslo
      getWeatherInfo_example [of "js ''Oslo''" "js ''skiing''"]
    by simp
  have m: "msg_chat_id ?msg = 7"
    by simp
  show ?thesis
    using C9_callback_preferences [of ?cq 7 "js ''today_Oslo''" ?e ?msg
        "js ''/weather Oslo, skiing''" "js ''Oslo''" "js ''skiing''" example_report ?b,
        unfolded n m] prem
    by blast
qed



end
